theory Spec2Isabelle
  imports Main
begin

section \<open>Python values and exceptions\<close>

text \<open>
  The exceptions the modelled code raises. A function that can raise returns
  \<open>py_error + 'a\<close>, with \<open>Inl\<close> the exception.
\<close>

datatype py_error =
    AssertionError
  | ValueError
  | KeyError
  | IndexError
  | TypeError
  | FileExistsError
  | FileNotFoundError
  | SyntaxError
  | OtherError string

text \<open>Sequencing: the second step runs only when the first did not raise.\<close>

fun ebind :: "py_error + 'a \<Rightarrow> ('a \<Rightarrow> py_error + 'b) \<Rightarrow> py_error + 'b" where
  "ebind (Inl e) f = Inl e"
| "ebind (Inr x) f = f x"

text \<open>A \<open>for\<close> loop over a list, threading the accumulator; an exception ends it.\<close>

fun for_each :: "'a list \<Rightarrow> ('a \<Rightarrow> 's \<Rightarrow> py_error + 's) \<Rightarrow> 's \<Rightarrow> py_error + 's" where
  "for_each [] body s = Inr s"
| "for_each (x # xs) body s = ebind (body x s) (for_each xs body)"

text \<open>A list comprehension \<open>[f(x) for x in xs]\<close> whose \<open>f\<close> can raise.\<close>

fun emap :: "('a \<Rightarrow> py_error + 'b) \<Rightarrow> 'a list \<Rightarrow> py_error + 'b list" where
  "emap f [] = Inr []"
| "emap f (x # xs) = ebind (f x) (\<lambda>y. ebind (emap f xs) (\<lambda>ys. Inr (y # ys)))"

section \<open>Looking up samples and ROIs by name\<close>

text \<open>
  \<open>IMCSample\<close> and \<open>ROI\<close> are classes of \<open>imc.data_models\<close>; the
  records below hold the attributes that \<open>Project\<close> reads from them
  (\<open>s.name\<close>, \<open>sample.rois\<close>, \<open>r.name\<close>).
\<close>

record ROI =
  name :: string

record IMCSample =
  name :: string
  rois :: "ROI list"

text \<open>The argument \<open>Union[str, List[str]]\<close> of the two getters.\<close>

datatype names_arg = Str string | StrList "string list"

text \<open>What a getter hands back: \<open>None\<close>, a single object, or a list.\<close>

datatype 'a got = PyNone | One 'a | Many "'a list"

text \<open>\<open>if isinstance(names, str): names = [names]\<close>\<close>

fun as_name_list :: "names_arg \<Rightarrow> string list" where
  "as_name_list (Str s) = [s]"
| "as_name_list (StrList l) = l"

text \<open>
  The tail shared by \<open>get_samples\<close> and \<open>get_rois\<close>: a non-empty selection is
  returned (unwrapped when it has one element); in the \<open>else\<close> branch a
  \<open>ValueError\<close> object is built but there is no \<open>raise\<close>, so the function
  falls off its end and returns \<open>None\<close>.
\<close>

definition select_result :: "'a list \<Rightarrow> py_error + 'a got" where
  "select_result sel =
     (if sel \<noteq> [] then Inr (if length sel = 1 then One (hd sel) else Many sel)
      else Inr PyNone)"

definition get_samples :: "IMCSample list \<Rightarrow> names_arg \<Rightarrow> py_error + IMCSample got" where
  "get_samples samples sample_names =
     (let sample_names = as_name_list sample_names;
          sel = filter (\<lambda>s. IMCSample.name s \<in> set sample_names) samples
      in select_result sel)"

text \<open>The property \<open>Project.rois\<close>: the ROIs of all samples, in order.\<close>

definition project_rois :: "IMCSample list \<Rightarrow> ROI list" where
  "project_rois samples = concat (map rois samples)"

definition get_rois :: "IMCSample list \<Rightarrow> names_arg \<Rightarrow> py_error + ROI got" where
  "get_rois samples roi_names =
     (let roi_names = as_name_list roi_names;
          sel = filter (\<lambda>r. ROI.name r \<in> set roi_names) (project_rois samples)
      in select_result sel)"

section \<open>Strings\<close>

text \<open>Python's \<open>s.startswith(pat)\<close> and \<open>pat in s\<close> on \<open>str\<close>.\<close>

fun startswith :: "string \<Rightarrow> string \<Rightarrow> bool" where
  "startswith s [] = True"
| "startswith [] (p # ps) = False"
| "startswith (c # s) (p # ps) = (c = p \<and> startswith s ps)"

fun str_contains :: "string \<Rightarrow> string \<Rightarrow> bool" where
  "str_contains [] pat = (pat = [])"
| "str_contains (c # s) pat = (startswith (c # s) pat \<or> str_contains s pat)"

section \<open>Segmentation: arrays and the numerical libraries\<close>

text \<open>
  An \<open>ndarray\<close> is its shape together with its pixel data. The pixel data is
  opaque (type \<open>'c\<close>): it is only ever produced by numpy, scikit-image,
  StarDist and DeepCell, which enter as the functions of a \<open>numlib\<close>. The shape
  bookkeeping, which is what the wrapper is responsible for, is explicit.
\<close>

record 'c ndarray =
  shape :: "nat list"
  content :: 'c

datatype deepcell_app = NuclearSegmentation | CytoplasmSegmentation | MultiplexSegmentation

record 'c numlib =
  eq_c :: "'c \<Rightarrow> 'c"
  mean0_c :: "'c list \<Rightarrow> 'c"
  stack_c :: "'c list \<Rightarrow> 'c"
  moveaxis_c :: "'c \<Rightarrow> 'c"
  resize_c :: "nat list \<Rightarrow> 'c \<Rightarrow> 'c"
  take_last_c :: "nat \<Rightarrow> 'c \<Rightarrow> 'c"
  predict_instances :: "'c ndarray \<Rightarrow> py_error + 'c ndarray"
  app_predict :: "deepcell_app \<Rightarrow> 'c ndarray \<Rightarrow> py_error + 'c ndarray"
  save_and_plot :: "'c ndarray \<Rightarrow> (string \<times> 'c ndarray) list \<Rightarrow> bool \<Rightarrow> bool \<Rightarrow> bool \<Rightarrow> py_error option"

text \<open>
  \<open>skimage.exposure.equalize_hist\<close>: same shape, new pixel values. The one
  0-dimensional array of this program is the \<open>nan\<close> that numpy's mean gives
  for an empty selection of channels (the planes of a stack have at least one
  axis); on it \<open>equalize_hist\<close> raises \<open>ValueError\<close>, as \<open>np.histogram\<close>
  finds no finite range of values.
\<close>

definition eq :: "'c numlib \<Rightarrow> 'c ndarray \<Rightarrow> py_error + 'c ndarray" where
  "eq L x =
     (if shape x = [] then Inl ValueError
      else Inr (x\<lparr>content := eq_c L (content x)\<rparr>))"

text \<open>
  \<open>np.asarray([...]).mean(0)\<close> over a list of planes taken from one CYX array
  (so they share their shape). Over the empty list numpy yields a 0-dimensional
  \<open>nan\<close>.
\<close>

definition mean0 :: "'c numlib \<Rightarrow> 'c ndarray list \<Rightarrow> 'c ndarray" where
  "mean0 L xs =
     (case xs of
        [] \<Rightarrow> \<lparr>shape = [], content = mean0_c L []\<rparr>
      | x # _ \<Rightarrow> \<lparr>shape = shape x, content = mean0_c L (map content xs)\<rparr>)"

text \<open>\<open>np.stack((a, b))\<close>: the two arrays must have the same shape.\<close>

definition np_stack :: "'c numlib \<Rightarrow> 'c ndarray \<Rightarrow> 'c ndarray \<Rightarrow> py_error + 'c ndarray" where
  "np_stack L a b =
     (if shape a = shape b
      then Inr \<lparr>shape = 2 # shape a, content = stack_c L [content a, content b]\<rparr>
      else Inl ValueError)"

text \<open>\<open>np.moveaxis(image, 0, -1)\<close>\<close>

definition moveaxis_0_last :: "'c numlib \<Rightarrow> 'c ndarray \<Rightarrow> 'c ndarray" where
  "moveaxis_0_last L a =
     \<lparr>shape = (case shape a of [] \<Rightarrow> [] | d # ds \<Rightarrow> ds @ [d]), content = moveaxis_c L (content a)\<rparr>"

text \<open>\<open>pred.squeeze()\<close>: every axis of length one is dropped.\<close>

definition squeeze :: "'c ndarray \<Rightarrow> 'c ndarray" where
  "squeeze a = a\<lparr>shape := filter (\<lambda>d. d \<noteq> 1) (shape a)\<rparr>"

text \<open>
  \<open>skimage.transform.resize(image, output_shape)\<close>. An output shape with more
  axes than the image pads the image's shape with ones; an output shape one axis
  short is read as the multichannel case and gets the image's last axis appended;
  anything shorter is a \<open>ValueError\<close>.
\<close>

definition resize :: "'c numlib \<Rightarrow> 'c ndarray \<Rightarrow> nat list \<Rightarrow> py_error + 'c ndarray" where
  "resize L img output_shape =
     (let output_ndim = length output_shape; ndim = length (shape img) in
      if output_ndim > ndim
        then Inr \<lparr>shape = output_shape, content = resize_c L output_shape (content img)\<rparr>
      else if output_ndim + 1 = ndim
        then Inr \<lparr>shape = output_shape @ [last (shape img)],
                 content = resize_c L (output_shape @ [last (shape img)]) (content img)\<rparr>
      else if output_ndim < ndim
        then Inl ValueError
      else Inr \<lparr>shape = output_shape, content = resize_c L output_shape (content img)\<rparr>)"

section \<open>Segmentation: \<open>prepare_stack\<close>\<close>

text \<open>Boolean-mask indexing along the first axis: \<open>xs[mask]\<close>.\<close>

definition mask_select :: "bool list \<Rightarrow> 'a list \<Rightarrow> py_error + 'a list" where
  "mask_select mask' xs =
     (if length mask' = length xs then Inr (map snd (filter fst (zip mask' xs)))
      else Inl IndexError)"

text \<open>
  \<open>channel_labels.str.contains("DNA")\<close> and
  \<open>channel_labels.str.contains("DNA|Ki67|SMA")\<close>: the pattern is a regular
  expression, here an alternation of literal words.
\<close>

definition contains_DNA :: "string \<Rightarrow> bool" where
  "contains_DNA l = str_contains l ''DNA''"

definition contains_DNA_Ki67_SMA :: "string \<Rightarrow> bool" where
  "contains_DNA_Ki67_SMA l =
     (str_contains l ''DNA'' \<or> str_contains l ''Ki67'' \<or> str_contains l ''SMA'')"

text \<open>
  The stack is the list of its channel planes (axis 0 of the CYX array);
  \<open>channel_exclude\<close> is the optional boolean series.
\<close>

definition exclude_channels ::
  "'a list \<Rightarrow> string list \<Rightarrow> bool list option \<Rightarrow> py_error + ('a list \<times> string list)" where
  "exclude_channels stack channel_labels channel_exclude =
     (case channel_exclude of
        None \<Rightarrow> Inr (stack, channel_labels)
      | Some exc \<Rightarrow>
          ebind (mask_select (map Not exc) stack) (\<lambda>stack'.
          ebind (mask_select (map Not exc) channel_labels) (\<lambda>labels'.
          Inr (stack', labels'))))"

definition prepare_stack ::
  "'c numlib \<Rightarrow> 'c ndarray list \<Rightarrow> string list \<Rightarrow> string \<Rightarrow> bool list option
     \<Rightarrow> py_error + 'c ndarray" where
  "prepare_stack L stack channel_labels compartment channel_exclude =
     (if compartment \<notin> set [''nuclear'', ''cytoplasm'', ''both''] then Inl AssertionError
      else
        ebind (exclude_channels stack channel_labels channel_exclude) (\<lambda>(stack, channel_labels).
        let nuclear_chs = map contains_DNA channel_labels in
        ebind (mask_select nuclear_chs stack) (\<lambda>nuclear.
        ebind (emap (eq L) nuclear) (\<lambda>planes.
        let nucl = mean0 L planes in
        if compartment = ''nuclear'' then Inr nucl
        else
          let cyto_chs = map (\<lambda>l. \<not> contains_DNA_Ki67_SMA l) channel_labels in
          ebind (mask_select (map Not cyto_chs) stack) (\<lambda>sel.
          ebind (emap (eq L) sel) (\<lambda>planes.
          let cyto = mean0 L planes in
          if compartment = ''cytoplasm'' then Inr cyto
          else np_stack L nucl cyto))))))"

section \<open>Segmentation: the models and \<open>segment_roi\<close>\<close>

definition stardist_segment_nuclei :: "'c numlib \<Rightarrow> 'c ndarray \<Rightarrow> py_error + 'c ndarray" where
  "stardist_segment_nuclei L img = ebind (eq L img) (predict_instances L)"

text \<open>
  \<open>resize(image, (256, 256))[np.newaxis, :, :, np.newaxis]\<close> for a 2-D image,
  \<open>resize(np.moveaxis(image, 0, -1), (256, 256, image.shape[0]))[np.newaxis, ...]\<close>
  for a 3-D one.
\<close>

definition deepcell_resize_to_predict_shape ::
  "'c numlib \<Rightarrow> 'c ndarray \<Rightarrow> py_error + 'c ndarray" where
  "deepcell_resize_to_predict_shape L img =
     (if length (shape img) = 2 then
        ebind (resize L img [256, 256]) (\<lambda>r. Inr (r\<lparr>shape := [1] @ shape r @ [1]\<rparr>))
      else if length (shape img) = 3 then
        ebind (resize L (moveaxis_0_last L img) [256, 256, hd (shape img)])
          (\<lambda>r. Inr (r\<lparr>shape := 1 # shape r\<rparr>))
      else Inl ValueError)"

text \<open>
  \<open>deepcell_segment\<close>. The three \<open>if\<close>s on the compartment exclude one
  another; when none of them fires \<open>pred\<close> is unbound at \<open>len(pred.shape)\<close>.
\<close>

definition deepcell_segment ::
  "'c numlib \<Rightarrow> 'c ndarray \<Rightarrow> string option \<Rightarrow> py_error + 'c ndarray" where
  "deepcell_segment L img compartment =
     ebind
       (case compartment of
          None \<Rightarrow> if shape img = [] then Inl IndexError
                  else Inr (if last (shape img) > 1 then ''both'' else ''nuclear'')
        | Some c \<Rightarrow> Inr c) (\<lambda>compartment.
        ebind
          (if compartment = ''nuclear'' then
             ebind (app_predict L NuclearSegmentation img) (\<lambda>p. Inr (squeeze p))
           else if compartment = ''cytoplasm'' then
             ebind (app_predict L CytoplasmSegmentation img) (\<lambda>p. Inr (squeeze p))
           else if compartment = ''both'' then
             ebind (app_predict L MultiplexSegmentation img) (\<lambda>p. Inr (squeeze p))
           else Inl (OtherError ''UnboundLocalError''))
          (\<lambda>pred.
             if length (shape pred) = 4 then resize L pred (tl (shape img)) else Inr pred))"

text \<open>\<open>mask[..., i]\<close>: position \<open>i\<close> of the last axis.\<close>

definition take_last :: "'c numlib \<Rightarrow> 'c ndarray \<Rightarrow> nat \<Rightarrow> py_error + 'c ndarray" where
  "take_last L mask' i =
     (if shape mask' \<noteq> [] \<and> i < last (shape mask')
      then Inr \<lparr>shape = butlast (shape mask'), content = take_last_c L i (content mask')\<rparr>
      else Inl IndexError)"

text \<open>
  The attributes \<open>segment_roi\<close> reads from its (duck-typed) ROI argument.
  \<open>stack\<close> and \<open>channel_labels\<close> are properties that load a file on every
  access, so reading them may raise; \<open>channel_exclude\<close> is a plain attribute.
\<close>

record 'c roi_data =
  stack :: "py_error + 'c ndarray list"
  channel_labels :: "py_error + string list"
  channel_exclude :: "bool list option"

text \<open>
  \<open>image = prepare_stack(roi.stack, roi.channel_labels, compartment, roi.channel_exclude)\<close>
\<close>

definition roi_image :: "'c numlib \<Rightarrow> 'c roi_data \<Rightarrow> string \<Rightarrow> py_error + 'c ndarray" where
  "roi_image L roi compartment =
     ebind (stack roi) (\<lambda>stk.
     ebind (channel_labels roi) (\<lambda>labels.
     prepare_stack L stk labels compartment (channel_exclude roi)))"

definition make_mask_dict ::
  "'c numlib \<Rightarrow> string \<Rightarrow> 'c ndarray \<Rightarrow> py_error + (string \<times> 'c ndarray) list" where
  "make_mask_dict L compartment mask' =
     (if compartment = ''both'' then
        ebind (take_last L mask' 0) (\<lambda>cell.
        ebind (take_last L mask' 1) (\<lambda>nuclei.
        Inr [(''cell'', cell), (''nuclei'', nuclei)]))
      else if compartment = ''nuclear'' then Inr [(''nuclei'', mask')]
      else if compartment = ''cytoplasm'' then Inr [(''cell'', mask')]
      else Inr [])"

text \<open>The \<open>deepcell\<close> branch of \<open>segment_roi\<close>.\<close>

definition deepcell_branch ::
  "'c numlib \<Rightarrow> 'c ndarray \<Rightarrow> string \<Rightarrow> py_error + 'c ndarray" where
  "deepcell_branch L img compartment =
     ebind (deepcell_resize_to_predict_shape L img) (\<lambda>input_image.
     ebind (deepcell_segment L input_image (Some compartment)) (\<lambda>mask'.
     ebind (if length (shape img) = 2 then resize L mask' (take 2 (shape img)) else Inr mask') (\<lambda>mask'.
     if length (shape img) = 3 then resize L mask' (take 2 (tl (shape img)) @ [2]) else Inr mask')))"

text \<open>
  \<open>segment_roi\<close>. The writing of the mask files and the figure at its end
  (\<open>save_and_plot\<close>) leaves the returned mask alone but may raise.
\<close>

definition segment_roi ::
  "'c numlib \<Rightarrow> 'c roi_data \<Rightarrow> string \<Rightarrow> string \<Rightarrow> bool \<Rightarrow> bool \<Rightarrow> bool
     \<Rightarrow> py_error + 'c ndarray" where
  "segment_roi L roi model compartment save overwrite plot_segmentation =
     (if model \<notin> set [''deepcell'', ''stardist''] then Inl AssertionError
      else
        ebind (roi_image L roi compartment) (\<lambda>img.
        ebind (if model = ''stardist'' then
                 (if compartment \<noteq> ''nuclear'' then Inl AssertionError
                  else stardist_segment_nuclei L img)
               else deepcell_branch L img compartment) (\<lambda>mask'.
        ebind (make_mask_dict L compartment mask') (\<lambda>mask_dict.
        case save_and_plot L img mask_dict save overwrite plot_segmentation of
          Some e \<Rightarrow> Inl e
        | None \<Rightarrow> Inr mask'))))"

section \<open>Assumptions on the libraries\<close>

text \<open>
  StarDist returns a label image of the shape of its input, and each DeepCell
  application returns a prediction of the shape of the batch it is given.
\<close>

definition models_keep_shape :: "'c numlib \<Rightarrow> bool" where
  "models_keep_shape L \<longleftrightarrow>
     (\<forall>x. \<exists>p. predict_instances L x = Inr p \<and> shape p = shape x)
     \<and> (\<forall>app x. \<exists>p. app_predict L app x = Inr p \<and> shape p = shape x)"

text \<open>Writing the mask files and the figure does not raise.\<close>

definition outputs_written :: "'c numlib \<Rightarrow> bool \<Rightarrow> bool \<Rightarrow> bool \<Rightarrow> bool" where
  "outputs_written L save overwrite plot \<longleftrightarrow>
     (\<forall>i d. save_and_plot L i d save overwrite plot = None)"

text \<open>No library call raises an \<open>AssertionError\<close> of its own.\<close>

definition libs_raise_no_AssertionError :: "'c numlib \<Rightarrow> bool" where
  "libs_raise_no_AssertionError L \<longleftrightarrow>
     (\<forall>x. predict_instances L x \<noteq> Inl AssertionError)
     \<and> (\<forall>a x. app_predict L a x \<noteq> Inl AssertionError)
     \<and> (\<forall>i d s ov p. save_and_plot L i d s ov p \<noteq> Some AssertionError)"

text \<open>
  A library instance for running the wrapper on concrete inputs: pixel data is
  \<open>unit\<close>, every model returns its input, nothing raises.
\<close>

definition shape_only_lib :: "unit numlib" where
  "shape_only_lib =
     \<lparr>eq_c = (\<lambda>c. c), mean0_c = (\<lambda>cs. ()), stack_c = (\<lambda>cs. ()), moveaxis_c = (\<lambda>c. c),
      resize_c = (\<lambda>s c. c), take_last_c = (\<lambda>i c. c),
      predict_instances = Inr, app_predict = (\<lambda>app. Inr),
      save_and_plot = (\<lambda>i d s ov p. None)\<rparr>"

text \<open>A two-channel 3 x 4 stack with one DNA channel.\<close>

definition example_roi :: "unit roi_data" where
  "example_roi =
     \<lparr>stack = Inr [\<lparr>shape = [3, 4], content = ()\<rparr>, \<lparr>shape = [3, 4], content = ()\<rparr>],
      channel_labels = Inr [''DNA1(Ir191)'', ''CD45(Sm152)''],
      channel_exclude = None\<rparr>"

text \<open>A two-channel 3 x 4 stack with a Ki67 channel and no DNA channel.\<close>

definition roi_without_DNA :: "unit roi_data" where
  "roi_without_DNA =
     \<lparr>stack = Inr [\<lparr>shape = [3, 4], content = ()\<rparr>, \<lparr>shape = [3, 4], content = ()\<rparr>],
      channel_labels = Inr [''Ki67(Er168)'', ''CD45(Sm152)''],
      channel_exclude = None\<rparr>"

section \<open>Paths\<close>

text \<open>\<open>s.split(sep)\<close> for a one-character separator.\<close>

fun str_split :: "char \<Rightarrow> string \<Rightarrow> string list" where
  "str_split sep [] = [[]]"
| "str_split sep (c # s) =
     (if c = sep then [] # str_split sep s
      else (case str_split sep s of [] \<Rightarrow> [[c]] | w # ws \<Rightarrow> (c # w) # ws))"

text \<open>
  \<open>str.replace\<close> rewrites every non-overlapping occurrence, from the left;
  with an empty pattern it puts the replacement around every character.
\<close>

fun str_replace :: "string \<Rightarrow> string \<Rightarrow> string \<Rightarrow> string" where
  "str_replace s [] new = new @ concat (map (\<lambda>c. c # new) s)"
| "str_replace [] (p # ps) new = []"
| "str_replace (c # s) (p # ps) new =
     (if startswith (c # s) (p # ps)
      then new @ str_replace (drop (length ps) s) (p # ps) new
      else c # str_replace s (p # ps) new)"

text \<open>
  A \<open>Path\<close> is handled through its string. \<open>Path(s)\<close> splits \<open>s\<close> at the
  slashes and drops the empty components and the components \<open>.\<close>; it keeps
  one leading slash (two when there are exactly two); the path with nothing
  left is \<open>.\<close>.
\<close>

fun join_path :: "string list \<Rightarrow> string" where
  "join_path [] = []"
| "join_path [p] = p"
| "join_path (p # q # ps) = p @ ''/'' @ join_path (q # ps)"

definition path_norm :: "string \<Rightarrow> string" where
  "path_norm s =
     (let parts = filter (\<lambda>p. p \<noteq> [] \<and> p \<noteq> ''.'') (str_split CHR ''/'' s);
          root = (if startswith s ''//'' \<and> \<not> startswith s ''///'' then ''//''
                  else if startswith s ''/'' then ''/'' else [])
      in if root = [] \<and> parts = [] then ''.'' else root @ join_path parts)"

text \<open>
  \<open>replace_\<close> (here \<open>path_replace\<close>) is \<open>Path(str(self).replace(patt, repl))\<close>.
\<close>

definition path_replace :: "string \<Rightarrow> string \<Rightarrow> string \<Rightarrow> string" where
  "path_replace path patt repl = path_norm (str_replace path patt repl)"

text \<open>\<open>Path.name\<close> and \<open>Path.stem\<close>: the last component, and that without its suffix.\<close>

definition path_name :: "string \<Rightarrow> string" where
  "path_name p = rev (takeWhile (\<lambda>c. c \<noteq> CHR ''/'') (rev p))"

definition path_stem :: "string \<Rightarrow> string" where
  "path_stem p =
     (let nm = path_name p; suf = takeWhile (\<lambda>c. c \<noteq> CHR ''.'') (rev nm) in
      if CHR ''.'' \<in> set nm \<and> suf \<noteq> [] \<and> length suf + 1 < length nm
      then take (length nm - length suf - 1) nm
      else nm)"

section \<open>The \<open>segment\<close> command\<close>

text \<open>
  What the command takes from outside: which paths exist, what
  \<open>tifffile.imread\<close> and \<open>pd.read_csv\<close> return for a path (or raise), the
  fill value pandas gives \<open>pd.Series(index=..., dtype=bool)\<close> (\<open>False\<close> or
  \<open>True\<close>, depending on its version), and what Python's \<open>re\<close> makes of a
  pattern: the test \<open>re.compile(pat).search\<close> on a label, or the \<open>re.error\<close>
  raised for a malformed pattern; and whether \<open>tifffile.imwrite\<close> and
  \<open>fig.savefig\<close> raise for a path. Reads are taken to be repeatable.
\<close>

record 'c world =
  existing :: "string set"
  imread :: "string \<Rightarrow> py_error + 'c ndarray list"
  read_labels :: "string \<Rightarrow> py_error + string list"
  new_bool_series :: "string list \<Rightarrow> bool list"
  re_search :: "string \<Rightarrow> py_error + (string \<Rightarrow> bool)"
  imwrite :: "string \<Rightarrow> py_error option"
  savefig :: "string \<Rightarrow> py_error option"

record ROI_mock =
  stack_file :: string
  channel_labels_file :: string
  channel_exclude :: "bool list option"
  name :: string

text \<open>The parsed command line (\<open>args.tiffs\<close>, \<open>args.model\<close>, ...).\<close>

record args =
  a_tiffs :: "string list"
  a_model :: string
  a_compartment :: string
  a_channel_exclude :: string
  a_output_mask_suffix :: string
  a_save :: bool
  a_overwrite :: bool
  a_plot :: bool

datatype message =
    Starting "string list"
  | MissingLabels string
  | Started string "nat list"
  | Finished string
  | Figure string
  | FinishedAll

datatype event = Print message | Imwrite string | Savefig string

text \<open>The properties \<open>ROI_mock.stack\<close> and \<open>ROI_mock.channel_labels\<close>.\<close>

definition as_roi_data :: "'c world \<Rightarrow> ROI_mock \<Rightarrow> 'c roi_data" where
  "as_roi_data W roi =
     \<lparr>stack = imread W (stack_file roi),
      channel_labels = read_labels W (channel_labels_file roi),
      channel_exclude = ROI_mock.channel_exclude roi\<rparr>"

text \<open>
  \<open>index.str.contains(pat)\<close>: the pattern is a regular expression. One
  without a special character matches the labels that contain it; any other is
  left to \<open>re\<close>, which may refuse it.
\<close>

definition regex_special :: "char \<Rightarrow> bool" where
  "regex_special c \<longleftrightarrow> c \<in> set (''.^$*+?{}[]|()'' @ [CHR 0x5C])"

definition str_contains_regex :: "'c world \<Rightarrow> string \<Rightarrow> py_error + (string \<Rightarrow> bool)" where
  "str_contains_regex W pat =
     (if list_ex regex_special pat then re_search W pat
      else Inr (\<lambda>l. str_contains l pat))"

text \<open>
  \<open>exc.loc[exc.index.str.contains(ch)] = True\<close> for every \<open>ch\<close> of the
  comma-separated option, unless the option is empty.
\<close>

definition mark_excluded ::
  "'c world \<Rightarrow> string \<Rightarrow> string list \<Rightarrow> bool list \<Rightarrow> py_error + bool list" where
  "mark_excluded W excl labels exc =
     (if excl \<noteq> []
      then for_each (str_split CHR '','' excl)
             (\<lambda>ch exc. ebind (str_contains_regex W ch)
                (\<lambda>hit. Inr (map (\<lambda>(l, b). hit l \<or> b) (zip labels exc))))
             exc
      else Inr exc)"

text \<open>
  The \<open>ROI_mock\<close> of a path, given the labels read from its labels file,
  with its \<open>channel_exclude\<close> set.
\<close>

definition make_ROI_mock ::
  "'c world \<Rightarrow> string \<Rightarrow> string \<Rightarrow> string list \<Rightarrow> py_error + ROI_mock" where
  "make_ROI_mock W excl tiff labels =
     ebind (mark_excluded W excl labels (new_bool_series W labels)) (\<lambda>exc.
     Inr \<lparr>stack_file = tiff,
          channel_labels_file = path_replace tiff ''.tiff'' ''.csv'',
          channel_exclude = Some exc,
          name = str_replace (path_stem tiff) ''_full'' ''''\<rparr>)"

text \<open>
  The first loop of \<open>main\<close>, with the printed lines and the list \<open>rois\<close> as
  accumulators. A raised exception ends the run; the lines printed so far stay.
\<close>

fun prepare_rois ::
  "'c world \<Rightarrow> string \<Rightarrow> string list \<Rightarrow> event list \<Rightarrow> ROI_mock list
     \<Rightarrow> event list \<times> (py_error + ROI_mock list)" where
  "prepare_rois W excl [] out rois' = (out, Inr rois')"
| "prepare_rois W excl (tiff # rest) out rois' =
     (let channel_labels_file = path_replace tiff ''.tiff'' ''.csv'' in
      if channel_labels_file \<notin> existing W
      then prepare_rois W excl rest (out @ [Print (MissingLabels tiff)]) rois'
      else
        (case read_labels W channel_labels_file of
           Inl e \<Rightarrow> (out, Inl e)
         | Inr labels \<Rightarrow>
             (case make_ROI_mock W excl tiff labels of
                Inl e \<Rightarrow> (out, Inl e)
              | Inr roi \<Rightarrow> prepare_rois W excl rest out (rois' @ [roi]))))"

definition stack_shape :: "'c ndarray list \<Rightarrow> nat list" where
  "stack_shape stk = length stk # (case stk of [] \<Rightarrow> [] | x # _ \<Rightarrow> shape x)"

text \<open>
  Writing the mask and the figure of one ROI, when \<open>args.save\<close> is set: the
  events, and the paths that exist afterwards or the exception of the write.
\<close>

definition write_mask ::
  "'c world \<Rightarrow> args \<Rightarrow> string \<Rightarrow> string set \<Rightarrow> event list \<times> (py_error + string set)" where
  "write_mask W a mask_file ex =
     (if a_overwrite a \<or> mask_file \<notin> ex
      then (case imwrite W mask_file of
              Some e \<Rightarrow> ([], Inl e)
            | None \<Rightarrow> ([Imwrite mask_file], Inr (insert mask_file ex)))
      else ([], Inr ex))"

definition write_figure ::
  "'c world \<Rightarrow> args \<Rightarrow> string \<Rightarrow> string set \<Rightarrow> event list \<times> (py_error + string set)" where
  "write_figure W a fig_file ex =
     (if a_overwrite a \<or> (\<not> a_overwrite a \<and> fig_file \<notin> ex)
      then (case savefig W fig_file of
              Some e \<Rightarrow> ([Print (Figure fig_file)], Inl e)
            | None \<Rightarrow> ([Print (Figure fig_file), Savefig fig_file], Inr (insert fig_file ex)))
      else ([], Inr ex))"

definition mask_file :: "args \<Rightarrow> ROI_mock \<Rightarrow> string" where
  "mask_file a roi =
     (let add = (if a_compartment a = ''nuclear'' then ''nuc'' else '''')
      in path_replace (stack_file roi) ''.tiff''
           (''_'' @ add @ ''mask'' @ a_output_mask_suffix a @ ''.tiff''))"

definition fig_file :: "args \<Rightarrow> ROI_mock \<Rightarrow> string" where
  "fig_file a roi =
     path_replace (stack_file roi) ''_full.tiff''
       (''_segmentation_'' @ a_model a @ ''_'' @ a_compartment a @ ''.svg'')"

definition save_outputs ::
  "'c world \<Rightarrow> args \<Rightarrow> ROI_mock \<Rightarrow> string set \<Rightarrow> event list \<times> (py_error + string set)" where
  "save_outputs W a roi ex =
     (if a_save a then
        (case write_mask W a (mask_file a roi) ex of
           (out1, Inl e) \<Rightarrow> (out1, Inl e)
         | (out1, Inr ex1) \<Rightarrow>
             if a_plot a then
               (case write_figure W a (fig_file a roi) ex1 of
                  (out2, res) \<Rightarrow> (out1 @ out2, res))
             else (out1, Inr ex1))
      else ([], Inr ex))"

text \<open>The body of the second loop, for one ROI.\<close>

definition segment_one ::
  "'c world \<Rightarrow> 'c numlib \<Rightarrow> args \<Rightarrow> ROI_mock \<Rightarrow> string set
     \<Rightarrow> event list \<times> (py_error + string set)" where
  "segment_one W L a roi ex =
     (case imread W (stack_file roi) of
        Inl e \<Rightarrow> ([], Inl e)
      | Inr stk \<Rightarrow>
          (case segment_roi L (as_roi_data W roi) (a_model a) (a_compartment a) False (a_overwrite a) (a_plot a) of
             Inl e \<Rightarrow> ([Print (Started (ROI_mock.name roi) (stack_shape stk))], Inl e)
           | Inr mask' \<Rightarrow>
               (case save_outputs W a roi ex of
                  (out, Inl e) \<Rightarrow> ([Print (Started (ROI_mock.name roi) (stack_shape stk))] @ out, Inl e)
                | (out, Inr ex') \<Rightarrow>
                    ([Print (Started (ROI_mock.name roi) (stack_shape stk))] @ out
                       @ [Print (Finished (ROI_mock.name roi))], Inr ex'))))"

fun segment_rois ::
  "'c world \<Rightarrow> 'c numlib \<Rightarrow> args \<Rightarrow> ROI_mock list \<Rightarrow> event list \<Rightarrow> string set
     \<Rightarrow> event list \<times> (py_error + string set)" where
  "segment_rois W L a [] out ex = (out, Inr ex)"
| "segment_rois W L a (roi # rest) out ex =
     (case segment_one W L a roi ex of
        (out1, Inl e) \<Rightarrow> (out @ out1, Inl e)
      | (out1, Inr ex') \<Rightarrow> segment_rois W L a rest (out @ out1) ex')"

text \<open>\<open>main\<close>, after the arguments are parsed: the printed lines and file writes, and the
  exception raised or the return code.\<close>

definition main :: "'c world \<Rightarrow> 'c numlib \<Rightarrow> args \<Rightarrow> event list \<times> (py_error + int)" where
  "main W L a =
     (case prepare_rois W (a_channel_exclude a) (a_tiffs a) [Print (Starting (a_tiffs a))] [] of
        (out, Inl e) \<Rightarrow> (out, Inl e)
      | (out, Inr rois') \<Rightarrow>
          (case segment_rois W L a rois' out (existing W) of
             (out', Inl e) \<Rightarrow> (out', Inl e)
           | (out', Inr ex) \<Rightarrow> (out' @ [Print FinishedAll], Inr 0)))"

text \<open>Reading the log: the paths warned about, and the ROIs reported as finished.\<close>

fun warned :: "event list \<Rightarrow> string list" where
  "warned [] = []"
| "warned (Print (MissingLabels t) # es) = t # warned es"
| "warned (e # es) = warned es"

fun finished :: "event list \<Rightarrow> string list" where
  "finished [] = []"
| "finished (Print (Finished n) # es) = n # finished es"
| "finished (e # es) = finished es"

text \<open>Writing a mask or a figure does not raise.\<close>

definition outputs_saved :: "'c world \<Rightarrow> bool" where
  "outputs_saved W \<longleftrightarrow> (\<forall>p. imwrite W p = None \<and> savefig W p = None)"

text \<open>
  Reading the labels, marking the excluded channels, reading the stack and
  segmenting succeed for the ROI of the path \<open>tiff\<close>.
\<close>

definition roi_segments :: "'c world \<Rightarrow> 'c numlib \<Rightarrow> args \<Rightarrow> string \<Rightarrow> bool" where
  "roi_segments W L a tiff \<longleftrightarrow>
     (\<exists>labels roi stk mask'.
        read_labels W (path_replace tiff ''.tiff'' ''.csv'') = Inr labels
        \<and> make_ROI_mock W (a_channel_exclude a) tiff labels = Inr roi
        \<and> imread W tiff = Inr stk
        \<and> segment_roi L (as_roi_data W roi)
              (a_model a) (a_compartment a) False (a_overwrite a) (a_plot a) = Inr mask')"

text \<open>
  The exception \<open>e\<close> is raised while the path \<open>tiff\<close> is processed: by the
  reading of its labels, by the marking of the excluded channels, by the
  reading of its stack, by \<open>segment_roi\<close>, or by the writing of its outputs.
\<close>

definition fails_on :: "'c world \<Rightarrow> 'c numlib \<Rightarrow> args \<Rightarrow> py_error \<Rightarrow> string \<Rightarrow> bool" where
  "fails_on W L a e tiff =
     (case read_labels W (path_replace tiff ''.tiff'' ''.csv'') of
        Inl e1 \<Rightarrow> e = e1
      | Inr labels \<Rightarrow>
          (case make_ROI_mock W (a_channel_exclude a) tiff labels of
             Inl e2 \<Rightarrow> e = e2
           | Inr roi \<Rightarrow>
               (case imread W tiff of
                  Inl e3 \<Rightarrow> e = e3
                | Inr stk \<Rightarrow>
                    (case segment_roi L (as_roi_data W roi) (a_model a) (a_compartment a) False
                            (a_overwrite a) (a_plot a) of
                       Inl e4 \<Rightarrow> e = e4
                     | Inr mask' \<Rightarrow> (\<exists>ex. snd (save_outputs W a roi ex) = Inl e)))))"

text \<open>The path has its companion channel-labels file.\<close>

definition has_labels :: "'c world \<Rightarrow> string \<Rightarrow> bool" where
  "has_labels W tiff \<longleftrightarrow> path_replace tiff ''.tiff'' ''.csv'' \<in> existing W"

text \<open>Reading the stack and segmenting succeed for a prepared ROI.\<close>

definition roi_ok :: "'c world \<Rightarrow> 'c numlib \<Rightarrow> args \<Rightarrow> ROI_mock \<Rightarrow> bool" where
  "roi_ok W L a roi \<longleftrightarrow>
     (\<exists>stk mask'. imread W (stack_file roi) = Inr stk
        \<and> segment_roi L (as_roi_data W roi) (a_model a) (a_compartment a) False (a_overwrite a)
              (a_plot a) = Inr mask')"

text \<open>
  A run of the command on two stacks, the second without its labels file.
\<close>

definition example_world :: "unit world" where
  "example_world =
     \<lparr>existing = {''/d/a_full.tiff'', ''/d/a_full.csv'', ''/d/b_full.tiff''},
      imread = (\<lambda>p. Inr [\<lparr>shape = [3, 4], content = ()\<rparr>, \<lparr>shape = [3, 4], content = ()\<rparr>]),
      read_labels = (\<lambda>p. Inr [''DNA1(Ir191)'', ''CD45(Sm152)'']),
      new_bool_series = map (\<lambda>l. False),
      re_search = (\<lambda>pat. Inl (OtherError ''re.error'')),
      imwrite = (\<lambda>p. None), savefig = (\<lambda>p. None)\<rparr>"

definition example_args :: args where
  "example_args =
     \<lparr>a_tiffs = [''/d/a_full.tiff'', ''/d/b_full.tiff''], a_model = ''stardist'',
      a_compartment = ''nuclear'', a_channel_exclude = '''', a_output_mask_suffix = '''',
      a_save = True, a_overwrite = False, a_plot = True\<rparr>"

section \<open>Statistical testing in \<open>Project.sample_comparisons\<close>\<close>

text \<open>A float is \<open>nan\<close> or a number.\<close>

datatype 'r pyfloat = NaN | Num 'r

text \<open>
  One row of \<open>channel_df\<close> (respectively \<open>cluster_df\<close>): the channel
  (cluster) it belongs to, the sample attributes, and the measured value
  (\<open>value\<close>, respectively \<open>cell_count\<close>). Channels, clusters and groups are
  whatever the columns hold (type variables \<open>'k\<close> and \<open>'g\<close>).
\<close>

record ('k, 'g, 'v) obs =
  item :: 'k
  attr :: "string \<Rightarrow> 'g"
  val :: 'v

text \<open>
  What the loops call: Python's \<open>str\<close> of a channel (cluster) and of a group,
  which the f-strings apply; \<open>DataFrame.query\<close>, which parses and evaluates
  the expression it is given and may raise; \<open>Series.mean\<close>,
  \<open>np.log2(x / y)\<close>; and \<open>scipy.stats.mannwhitneyu\<close>, which may raise.
\<close>

record ('k, 'g, 'v, 'r) stats =
  str_item :: "'k \<Rightarrow> string"
  str_group :: "'g \<Rightarrow> string"
  query :: "('k, 'g, 'v) obs list \<Rightarrow> string \<Rightarrow> py_error + ('k, 'g, 'v) obs list"
  mean :: "'v list \<Rightarrow> 'r pyfloat"
  log2_ratio :: "'r pyfloat \<Rightarrow> 'r pyfloat \<Rightarrow> 'r pyfloat"
  mannwhitneyu :: "'v list \<Rightarrow> 'v list \<Rightarrow> py_error + ('r pyfloat \<times> 'r pyfloat)"

text \<open>One entry of \<open>_res\<close>.\<close>

record ('k, 'g, 'r) test_row =
  attribute :: string
  tested :: 'k
  group1 :: 'g
  group2 :: 'g
  mean1 :: "'r pyfloat"
  mean2 :: "'r pyfloat"
  log2_fold :: "'r pyfloat"
  stat :: "'r pyfloat"
  p_value :: "'r pyfloat"

text \<open>\<open>Series.unique()\<close>: the distinct values in order of first appearance.\<close>

fun unique :: "'a list \<Rightarrow> 'a list" where
  "unique [] = []"
| "unique (x # xs) = x # unique (filter (\<lambda>y. y \<noteq> x) xs)"

text \<open>\<open>itertools.permutations(xs, 2)\<close>: the pairs of two different positions.\<close>

definition permutations2 :: "'a list \<Rightarrow> ('a \<times> 'a) list" where
  "permutations2 xs =
     concat (map (\<lambda>i. map (\<lambda>j. (xs ! i, xs ! j)) (filter (\<lambda>j. j \<noteq> i) [0..<length xs]))
                 [0..<length xs])"

text \<open>
  The expression the loops build,
  \<open>f"channel == '{channel}' & {attribute} == '{group}'"\<close> (with \<open>cluster\<close>
  for \<open>channel\<close> in the second loop): the values are pasted between single
  quotes as they are, the attribute as a bare name.
\<close>

definition quoted :: "string \<Rightarrow> string" where
  "quoted s = [CHR 0x27] @ s @ [CHR 0x27]"

definition query_expr :: "string \<Rightarrow> string \<Rightarrow> string \<Rightarrow> string \<Rightarrow> string" where
  "query_expr column it attribute' grp =
     column @ '' == '' @ quoted it @ '' & '' @ attribute' @ '' == '' @ quoted grp"

text \<open>
  \<open>df.query(f"channel == '{channel}' & {attribute} == '{group}'")["value"]\<close>
\<close>

definition query_values ::
  "('k, 'g, 'v, 'r) stats \<Rightarrow> ('k, 'g, 'v) obs list \<Rightarrow> string \<Rightarrow> 'k \<Rightarrow> string \<Rightarrow> 'g
     \<Rightarrow> py_error + 'v list" where
  "query_values T df column it attribute' grp =
     ebind (query T df (query_expr column (str_item T it) attribute' (str_group T grp)))
       (\<lambda>sel. Inr (map val sel))"

text \<open>
  \<open>try: mu = mannwhitneyu(a, b)\<close> / \<open>except ValueError: mu = (np.nan, np.nan)\<close>.
  Any other exception propagates.
\<close>

definition try_mannwhitneyu ::
  "('k, 'g, 'v, 'r) stats \<Rightarrow> 'v list \<Rightarrow> 'v list \<Rightarrow> py_error + ('r pyfloat \<times> 'r pyfloat)" where
  "try_mannwhitneyu T a b =
     (case mannwhitneyu T a b of
        Inr mu \<Rightarrow> Inr mu
      | Inl e \<Rightarrow> if e = ValueError then Inr (NaN, NaN) else Inl e)"

text \<open>
  The body of the innermost loop: one pair of groups, appended to \<open>_res\<close>.
  The two queries are outside the \<open>try\<close>.
\<close>

definition test_pair ::
  "('k, 'g, 'v, 'r) stats \<Rightarrow> ('k, 'g, 'v) obs list \<Rightarrow> string \<Rightarrow> string \<Rightarrow> 'k \<Rightarrow> 'g \<times> 'g
     \<Rightarrow> ('k, 'g, 'r) test_row list \<Rightarrow> py_error + ('k, 'g, 'r) test_row list" where
  "test_pair T df column attribute' it pair res =
     ebind (query_values T df column it attribute' (fst pair)) (\<lambda>a.
     ebind (query_values T df column it attribute' (snd pair)) (\<lambda>b.
     let am = mean T a;
         bm = mean T b
     in ebind (try_mannwhitneyu T a b) (\<lambda>mu.
          Inr (res @ [\<lparr>attribute = attribute', tested = it, group1 = fst pair, group2 = snd pair,
                        mean1 = am, mean2 = bm, log2_fold = log2_ratio T (mean T a) (mean T b),
                        stat = fst mu, p_value = snd mu\<rparr>]))))"

text \<open>
  The three nested loops. \<open>sample_comparisons\<close> runs them twice, with the same
  text: over \<open>channel_df\<close> by channel and over \<open>cluster_df\<close> by cluster.
\<close>

definition testing_loops ::
  "('k, 'g, 'v, 'r) stats \<Rightarrow> ('k, 'g, 'v) obs list \<Rightarrow> string \<Rightarrow> string list
     \<Rightarrow> py_error + ('k, 'g, 'r) test_row list" where
  "testing_loops T df column sample_attributes =
     for_each sample_attributes (\<lambda>attribute'.
       for_each (unique (map item df)) (\<lambda>it.
         for_each (permutations2 (unique (map (\<lambda>r. attr r attribute') df)))
           (test_pair T df column attribute' it))) []"

definition channel_tests ::
  "('k, 'g, 'v, 'r) stats \<Rightarrow> ('k, 'g, 'v) obs list \<Rightarrow> string list
     \<Rightarrow> py_error + ('k, 'g, 'r) test_row list" where
  "channel_tests T channel_df sample_attributes =
     testing_loops T channel_df ''channel'' sample_attributes"

definition cluster_tests ::
  "('k, 'g, 'v, 'r) stats \<Rightarrow> ('k, 'g, 'v) obs list \<Rightarrow> string list
     \<Rightarrow> py_error + ('k, 'g, 'r) test_row list" where
  "cluster_tests T cluster_df sample_attributes =
     testing_loops T cluster_df ''cluster'' sample_attributes"

text \<open>The pairs the loops visit, in order.\<close>

definition visited :: "('k, 'g, 'v) obs list \<Rightarrow> string list \<Rightarrow> (string \<times> 'k \<times> 'g \<times> 'g) list" where
  "visited df sample_attributes =
     concat (map (\<lambda>at.
       concat (map (\<lambda>it.
         map (\<lambda>pair. (at, it, fst pair, snd pair))
             (permutations2 (unique (map (\<lambda>r. attr r at) df))))
         (unique (map item df))))
       sample_attributes)"

text \<open>The test raises nothing but \<open>ValueError\<close>.\<close>

definition raises_only_ValueError :: "('k, 'g, 'v, 'r) stats \<Rightarrow> bool" where
  "raises_only_ValueError T \<longleftrightarrow> (\<forall>a b e. mannwhitneyu T a b = Inl e \<longrightarrow> e = ValueError)"

text \<open>Both queries of every visited pair return.\<close>

definition queries_return ::
  "('k, 'g, 'v, 'r) stats \<Rightarrow> ('k, 'g, 'v) obs list \<Rightarrow> string \<Rightarrow> string list \<Rightarrow> bool" where
  "queries_return T df column sample_attributes \<longleftrightarrow>
     (\<forall>p \<in> set (visited df sample_attributes).
        case p of (at, it, g1, g2) \<Rightarrow>
          (\<exists>a. query_values T df column it at g1 = Inr a)
          \<and> (\<exists>b. query_values T df column it at g2 = Inr b))"

text \<open>
  The entry appended for one pair with the samples \<open>a\<close> and \<open>b\<close>, when the
  test returns or raises \<open>ValueError\<close>.
\<close>

definition appended_row ::
  "('k, 'g, 'v, 'r) stats \<Rightarrow> string \<Rightarrow> 'k \<Rightarrow> 'g \<times> 'g \<Rightarrow> 'v list \<Rightarrow> 'v list
     \<Rightarrow> ('k, 'g, 'r) test_row" where
  "appended_row T at it pair a b =
     (let mu = (case mannwhitneyu T a b of Inr mu \<Rightarrow> mu | Inl e \<Rightarrow> (NaN, NaN))
      in \<lparr>attribute = at, tested = it, group1 = fst pair, group2 = snd pair,
          mean1 = mean T a, mean2 = mean T b, log2_fold = log2_ratio T (mean T a) (mean T b),
          stat = fst mu, p_value = snd mu\<rparr>)"

text \<open>
  The outcome of the loops over a frame is complete: they return, with one
  entry per visited pair, in order, and an entry whose test raised
  \<open>ValueError\<close> has \<open>nan\<close> for the statistic and for the p-value.
\<close>

definition all_pairs_recorded ::
  "('k, 'g, 'v, 'r) stats \<Rightarrow> ('k, 'g, 'v) obs list \<Rightarrow> string \<Rightarrow> string list
     \<Rightarrow> py_error + ('k, 'g, 'r) test_row list \<Rightarrow> bool" where
  "all_pairs_recorded T df column sample_attributes outcome \<longleftrightarrow>
     (\<exists>res. outcome = Inr res
        \<and> map (\<lambda>r. (attribute r, tested r, group1 r, group2 r)) res = visited df sample_attributes
        \<and> (\<forall>r \<in> set res. \<forall>a b.
              query_values T df column (tested r) (attribute r) (group1 r) = Inr a
              \<and> query_values T df column (tested r) (attribute r) (group2 r) = Inr b
              \<and> mannwhitneyu T a b = Inl ValueError
              \<longrightarrow> stat r = NaN \<and> p_value r = NaN))"

text \<open>
  The exception \<open>e\<close> is raised at the visited pair \<open>p\<close>: by its first query,
  by its second query, or by the test, and then it is not a \<open>ValueError\<close>.
\<close>

definition raised_at ::
  "('k, 'g, 'v, 'r) stats \<Rightarrow> ('k, 'g, 'v) obs list \<Rightarrow> string \<Rightarrow> py_error
     \<Rightarrow> string \<times> 'k \<times> 'g \<times> 'g \<Rightarrow> bool" where
  "raised_at T df column e p =
     (case p of (at, it, g1, g2) \<Rightarrow>
        (case query_values T df column it at g1 of
           Inl e1 \<Rightarrow> e = e1
         | Inr a \<Rightarrow>
             (case query_values T df column it at g2 of
                Inl e2 \<Rightarrow> e = e2
              | Inr b \<Rightarrow> mannwhitneyu T a b = Inl e \<and> e \<noteq> ValueError)))"

text \<open>
  Routines for concrete runs. The query understands the expressions of the
  loops when the pasted values contain no quote, and selects the rows; on
  anything else it raises \<open>SyntaxError\<close>, as the parser of \<open>DataFrame.query\<close>
  does on an unbalanced quote. The test raises \<open>ValueError\<close> when a sample is
  empty and returns fixed numbers otherwise; the other routines return \<open>nan\<close>.
\<close>

definition simple_query ::
  "(string, string, int) obs list \<Rightarrow> string \<Rightarrow> py_error + (string, string, int) obs list" where
  "simple_query df expr =
     (case str_split (CHR 0x27) expr of
        [c1, it, c2, grp, c3] \<Rightarrow>
          (let at = take (length c2 - 7) (drop 3 c2) in
           if c1 \<in> set [''channel == '', ''cluster == '']
              \<and> c2 = '' & '' @ at @ '' == '' \<and> c3 = []
           then Inr (filter (\<lambda>r. item r = it \<and> attr r at = grp) df)
           else Inl SyntaxError)
      | _ \<Rightarrow> Inl SyntaxError)"

definition example_stats :: "(string, string, int, int) stats" where
  "example_stats =
     \<lparr>str_item = (\<lambda>s. s), str_group = (\<lambda>s. s), query = simple_query,
      mean = (\<lambda>xs. NaN), log2_ratio = (\<lambda>x y. NaN),
      mannwhitneyu = (\<lambda>a b. if a = [] \<or> b = [] then Inl ValueError else Inr (Num 1, Num 2))\<rparr>"

definition example_frame :: "(string, string, int) obs list" where
  "example_frame =
     [\<lparr>item = ''CD45'', attr = (\<lambda>c. ''healthy''), val = 3\<rparr>,
      \<lparr>item = ''CD45'', attr = (\<lambda>c. ''disease''), val = 5\<rparr>,
      \<lparr>item = ''CD20'', attr = (\<lambda>c. ''healthy''), val = 7\<rparr>]"

text \<open>The same frame with a group whose name has an apostrophe.\<close>

definition apostrophe_frame :: "(string, string, int) obs list" where
  "apostrophe_frame =
     [\<lparr>item = ''CD45'', attr = (\<lambda>c. ''healthy''), val = 3\<rparr>,
      \<lparr>item = ''CD45'', attr = (\<lambda>c. ''Crohn'' @ [CHR 0x27] @ ''s''), val = 5\<rparr>,
      \<lparr>item = ''CD20'', attr = (\<lambda>c. ''healthy''), val = 7\<rparr>]"

section \<open>Tables and CSV files\<close>

text \<open>
  The values of a pandas cell: a string, an integer, a float (kept as its
  literal), a boolean, or the missing value.
\<close>

datatype pyval = PStr string | PInt int | PFloat string | PBool bool | PNaN

text \<open>Decimal digits.\<close>

definition digit_char :: "nat \<Rightarrow> char" where
  "digit_char d = ''0123456789'' ! d"

definition is_digit :: "char \<Rightarrow> bool" where
  "is_digit c \<longleftrightarrow> c \<in> set ''0123456789''"

definition digit_val :: "char \<Rightarrow> nat" where
  "digit_val c = length (takeWhile (\<lambda>d. d \<noteq> c) ''0123456789'')"

text \<open>\<open>str(n)\<close> for a natural number and for an integer.\<close>

fun show_nat :: "nat \<Rightarrow> string" where
  "show_nat n = (if n < 10 then [digit_char n] else show_nat (n div 10) @ [digit_char (n mod 10)])"

definition show_int :: "int \<Rightarrow> string" where
  "show_int i = (if i < 0 then CHR ''-'' # show_nat (nat (- i)) else show_nat (nat i))"

text \<open>Reading a run of digits, most significant first.\<close>

fun parse_digits :: "nat \<Rightarrow> string \<Rightarrow> nat option" where
  "parse_digits acc [] = Some acc"
| "parse_digits acc (c # cs) =
     (if is_digit c then parse_digits (10 * acc + digit_val c) cs else None)"

text \<open>
  The parser skips blanks around a number.
\<close>

definition is_space :: "char \<Rightarrow> bool" where
  "is_space c \<longleftrightarrow> c \<in> set [CHR '' '', CHR 0x09, CHR 0x0A, CHR 0x0B, CHR 0x0C, CHR 0x0D]"

definition trim :: "string \<Rightarrow> string" where
  "trim s = rev (dropWhile is_space (rev (dropWhile is_space s)))"

text \<open>
  An integer field: an optional sign and at least one digit, with a value that
  fits 64 bits.
\<close>

definition parse_int :: "string \<Rightarrow> int option" where
  "parse_int s =
     (let (neg, ds) = (case trim s of
                         c # cs \<Rightarrow> if c = CHR ''-'' then (True, cs)
                                    else if c = CHR ''+'' then (False, cs) else (False, trim s)
                       | [] \<Rightarrow> (False, []))
      in if ds = [] then None
         else (case parse_digits 0 ds of
                 None \<Rightarrow> None
               | Some n \<Rightarrow>
                   let v = (if neg then - int n else int n) in
                   if - (2 ^ 63) \<le> v \<and> v < 2 ^ 63 then Some v else None))"

text \<open>
  The strings \<open>pd.read_csv\<close> reads as a missing value by default, also in a
  column whose dtype is given as \<open>str\<close>.
\<close>

definition na_values :: "string list" where
  "na_values =
     ['''', ''#N/A'', ''#N/A N/A'', ''#NA'', ''-1.#IND'', ''-1.#QNAN'', ''-NaN'', ''-nan'',
      ''1.#IND'', ''1.#QNAN'', ''<NA>'', ''N/A'', ''NA'', ''NULL'', ''NaN'', ''None'', ''n/a'',
      ''nan'', ''null'']"

definition is_na :: "string \<Rightarrow> bool" where
  "is_na f \<longleftrightarrow> f \<in> set na_values"

text \<open>The cells read as booleans.\<close>

definition parse_bool :: "string \<Rightarrow> bool option" where
  "parse_bool f =
     (if f \<in> set [''True'', ''TRUE'', ''true''] then Some True
      else if f \<in> set [''False'', ''FALSE'', ''false''] then Some False
      else None)"

text \<open>
  The cells read as floats: blanks aside, an optional sign, then either a word
  for infinity (in any case) or digits with an optional fraction and an
  optional exponent.
\<close>

definition strip_sign :: "string \<Rightarrow> string" where
  "strip_sign s = (case s of c # cs \<Rightarrow> if c = CHR ''-'' \<or> c = CHR ''+'' then cs else s | [] \<Rightarrow> [])"

definition to_lower :: "char \<Rightarrow> char" where
  "to_lower c =
     (case map_of (zip ''ABCDEFGHIJKLMNOPQRSTUVWXYZ'' ''abcdefghijklmnopqrstuvwxyz'') c of
        Some l \<Rightarrow> l
      | None \<Rightarrow> c)"

definition float_literal :: "string \<Rightarrow> bool" where
  "float_literal s =
     (let t = strip_sign (trim s);
          ip = takeWhile is_digit t;
          r1 = dropWhile is_digit t;
          fp = (case r1 of c # r \<Rightarrow> if c = CHR ''.'' then takeWhile is_digit r else [] | [] \<Rightarrow> []);
          r2 = (case r1 of c # r \<Rightarrow> if c = CHR ''.'' then dropWhile is_digit r else r1 | [] \<Rightarrow> [])
      in map to_lower t \<in> set [''inf'', ''infinity'']
         \<or> ((ip \<noteq> [] \<or> fp \<noteq> [])
             \<and> (r2 = []
                 \<or> (case r2 of
                       c # r \<Rightarrow> (c = CHR ''e'' \<or> c = CHR ''E'')
                                  \<and> strip_sign r \<noteq> [] \<and> list_all is_digit (strip_sign r)
                     | [] \<Rightarrow> True))))"

text \<open>
  The type a column gets when \<open>read_csv\<close> is given no dtype for it: integers
  when every field is one; floats when every field is a number or missing;
  booleans likewise; strings (with missing values) otherwise.
\<close>

definition infer_column :: "string list \<Rightarrow> pyval list" where
  "infer_column cells =
     (if list_all (\<lambda>f. parse_int f \<noteq> None) cells
        then map (\<lambda>f. PInt (the (parse_int f))) cells
      else if list_all (\<lambda>f. parse_int f \<noteq> None \<or> float_literal f \<or> is_na f) cells
        then map (\<lambda>f. if is_na f then PNaN else PFloat f) cells
      else if list_all (\<lambda>f. parse_bool f \<noteq> None \<or> is_na f) cells
        then map (\<lambda>f. if is_na f then PNaN else PBool (the (parse_bool f))) cells
      else map (\<lambda>f. if is_na f then PNaN else PStr f) cells)"

text \<open>A column read with \<open>dtype=str\<close>.\<close>

definition str_column :: "string list \<Rightarrow> pyval list" where
  "str_column cells = map (\<lambda>f. if is_na f then PNaN else PStr f) cells"

text \<open>How \<open>to_csv\<close> prints a cell.\<close>

fun render_cell :: "pyval \<Rightarrow> string" where
  "render_cell (PStr s) = s"
| "render_cell (PInt i) = show_int i"
| "render_cell (PFloat f) = f"
| "render_cell (PBool b) = (if b then ''True'' else ''False'')"
| "render_cell PNaN = ''''"

text \<open>
  A CSV file, as its header and its records of cells; separators and quoting
  are left to the writer and the parser. A frame in transit between a series
  and a file is the list of its named columns.
\<close>

record csv_file =
  header :: "string list"
  records :: "string list list"

type_synonym frame = "(string \<times> pyval list) list"

text \<open>\<open>df.to_csv(fn, index=False)\<close>\<close>

definition to_csv :: "frame \<Rightarrow> csv_file" where
  "to_csv df =
     \<lparr>header = map fst df,
      records = map (\<lambda>i. map (\<lambda>col. render_cell (snd col ! i)) df)
                    [0..<(case df of [] \<Rightarrow> 0 | col # _ \<Rightarrow> length (snd col))]\<rparr>"

text \<open>\<open>pd.read_csv(fn, dtype={c: str for c in str_cols})\<close> on a file that is there.\<close>

definition read_csv :: "string list \<Rightarrow> csv_file \<Rightarrow> frame" where
  "read_csv str_cols file =
     map (\<lambda>(j, h). (h, (if h \<in> set str_cols then str_column else infer_column)
                            (map (\<lambda>r. r ! j) (records file))))
         (List.enumerate 0 (header file))"

text \<open>
  A series: its index (plain or multi-level, with the names of the levels and
  the entries), its values and its name.
\<close>

datatype pd_index =
    Index "string option" "pyval list"
  | MultiIndex "string option list" "pyval list list"

record Series =
  s_index :: pd_index
  s_values :: "pyval list"
  s_name :: "string option"

text \<open>\<open>isinstance(clusters.index, pd.MultiIndex)\<close> and \<open>clusters.index.names\<close>.\<close>

fun is_MultiIndex :: "pd_index \<Rightarrow> bool" where
  "is_MultiIndex (MultiIndex names entries) = True"
| "is_MultiIndex (Index n entries) = False"

fun index_names :: "pd_index \<Rightarrow> string option list" where
  "index_names (MultiIndex names entries) = names"
| "index_names (Index n entries) = [n]"

text \<open>
  \<open>series.reset_index()\<close>: the levels become columns under their names
  (\<open>level_i\<close>, or \<open>index\<close>, when unnamed), the values a column under the
  name of the series (\<open>0\<close> when unnamed). A clash of names is a \<open>ValueError\<close>.
\<close>

definition reset_index :: "Series \<Rightarrow> py_error + frame" where
  "reset_index s =
     (let value_name = (case s_name s of Some n \<Rightarrow> n | None \<Rightarrow> ''0'');
          levels =
            (case s_index s of
               MultiIndex names entries \<Rightarrow>
                 map (\<lambda>(j, n). ((case n of Some x \<Rightarrow> x | None \<Rightarrow> ''level_'' @ show_nat j),
                                 map (\<lambda>t. t ! j) entries))
                     (List.enumerate 0 names)
             | Index n entries \<Rightarrow> [((case n of Some x \<Rightarrow> x | None \<Rightarrow> ''index''), entries)])
      in if value_name \<in> set (map fst levels) then Inl ValueError
         else Inr (levels @ [(value_name, s_values s)]))"

text \<open>\<open>df.set_index(id_cols)["cluster"]\<close>\<close>

definition set_index_cluster :: "string list \<Rightarrow> frame \<Rightarrow> py_error + Series" where
  "set_index_cluster id_cols df =
     (if \<not> list_all (\<lambda>c. c \<in> set (map fst df)) id_cols then Inl KeyError
      else
        (case map_of (filter (\<lambda>col. fst col \<notin> set id_cols) df) ''cluster'' of
           None \<Rightarrow> Inl KeyError
         | Some vals \<Rightarrow>
             Inr \<lparr>s_index = MultiIndex (map Some id_cols)
                              (map (\<lambda>i. map (\<lambda>c. the (map_of df c) ! i) id_cols) [0..<length vals]),
                  s_values = vals,
                  s_name = Some ''cluster''\<rparr>))"

definition id_cols :: "string list" where
  "id_cols = [''sample'', ''roi'', ''obj_id'']"

text \<open>
  What \<open>cluster_cells\<close>, \<open>_rename_clusters\<close> and \<open>set_clusters\<close> write:
  \<open>clusters.reset_index().to_csv(fn, index=False)\<close>; and what \<open>set_clusters\<close>
  reads back from the text of the file:
  \<open>pd.read_csv(fn, dtype={"sample": str, "roi": str}).set_index(id_cols)["cluster"]\<close>.
\<close>

definition write_clusters_csv :: "Series \<Rightarrow> py_error + csv_file" where
  "write_clusters_csv clusters = ebind (reset_index clusters) (\<lambda>df. Inr (to_csv df))"

definition read_clusters_csv :: "csv_file \<Rightarrow> py_error + Series" where
  "read_clusters_csv file = set_index_cluster id_cols (read_csv [''sample'', ''roi''] file)"

text \<open>Two cluster assignments: one with labels that are words, one with labels that are digits.\<close>

definition named_clusters :: Series where
  "named_clusters =
     \<lparr>s_index = MultiIndex [Some ''sample'', Some ''roi'', Some ''obj_id'']
                  [[PStr ''s1'', PStr ''s1-01'', PInt 1], [PStr ''s1'', PStr ''s1-01'', PInt 2]],
      s_values = [PStr ''T cell'', PStr ''3''],
      s_name = Some ''cluster''\<rparr>"






section \<open>The project\<close>

text \<open>
  A table (\<open>DataFrame\<close>) of metadata: its column names and its rows, each row
  giving the cell of every column.
\<close>

record DataFrame =
  df_columns :: "string list"
  df_rows :: "(string \<Rightarrow> pyval) list"

text \<open>\<open>df.empty\<close>: an axis has length zero.\<close>

definition df_empty :: "DataFrame \<Rightarrow> bool" where
  "df_empty df \<longleftrightarrow> df_columns df = [] \<or> df_rows df = []"

text \<open>\<open>str(v)\<close> for a cell.\<close>

fun py_str :: "pyval \<Rightarrow> string" where
  "py_str (PStr s) = s"
| "py_str (PInt i) = show_int i"
| "py_str (PFloat f) = f"
| "py_str (PBool b) = (if b then ''True'' else ''False'')"
| "py_str PNaN = ''nan''"

text \<open>
  Paths are absolute and written with \<open>/\<close>. \<open>a / b\<close> appends a component,
  \<open>p.parent\<close> drops the last one.
\<close>

definition path_join :: "string \<Rightarrow> string \<Rightarrow> string" where
  "path_join a b = a @ ''/'' @ b"

definition path_parent :: "string \<Rightarrow> string" where
  "path_parent p =
     (let d = rev (drop 1 (dropWhile (\<lambda>c. c \<noteq> CHR ''/'') (rev p))) in
      if d = [] then (if startswith p ''/'' then ''/'' else ''.'') else d)"

text \<open>
  The disk: the directories, the cluster-assignment files with their text, and
  what \<open>pd.read_csv\<close> makes of a metadata or panel sheet at a path.
\<close>

record disk =
  dirs :: "string set"
  csv_files :: "string \<rightharpoonup> csv_file"
  read_table :: "string \<Rightarrow> py_error + DataFrame"

text \<open>
  \<open>Path.mkdir()\<close> with its defaults \<open>parents=False, exist_ok=False\<close>: the
  path must not exist and its parent must.
\<close>

definition mkdir :: "disk \<Rightarrow> string \<Rightarrow> py_error + disk" where
  "mkdir d p =
     (if p \<in> dirs d \<or> csv_files d p \<noteq> None then Inl FileExistsError
      else if path_parent p \<notin> dirs d then Inl FileNotFoundError
      else Inr (d\<lparr>dirs := insert p (dirs d)\<rparr>))"

text \<open>\<open>df.to_csv(fn, index=False)\<close> needs the directory of \<open>fn\<close>.\<close>

definition write_csv :: "disk \<Rightarrow> string \<Rightarrow> csv_file \<Rightarrow> py_error + disk" where
  "write_csv d fn file =
     (if path_parent fn \<notin> dirs d \<or> fn \<in> dirs d then Inl (OtherError ''OSError'')
      else Inr (d\<lparr>csv_files := (csv_files d)(fn \<mapsto> file)\<rparr>))"

text \<open>
  The arguments of the \<open>IMCSample\<close> constructor as the project passes them
  (the back reference \<open>prj=self\<close> is left out); \<open>c_kwargs\<close> are the
  keyword arguments \<open>**kwargs, **row...to_dict()\<close>.
\<close>

record sample_call =
  c_sample_name :: pyval
  c_root_dir :: string
  c_subfolder_per_sample :: bool
  c_metadata :: "DataFrame option"
  c_panel_metadata :: "DataFrame option"
  c_kwargs :: "(string \<times> pyval) list"

text \<open>
  What lies outside the class: the table \<open>_detect_samples\<close> builds from the
  processed directory, the \<open>IMCSample\<close> constructor and
  \<open>IMCSample.set_clusters\<close> (both may raise), and the order in which pandas
  lists the groups of a \<open>groupby(..., sort=False)\<close>, given the keys of the
  rows.
\<close>

record outside =
  detect_samples :: DataFrame
  new_IMCSample :: "sample_call \<Rightarrow> py_error + IMCSample"
  sample_set_clusters :: "IMCSample \<Rightarrow> Series \<Rightarrow> py_error option"
  groups_order :: "pyval list list \<Rightarrow> pyval list list"

text \<open>The attributes of a \<open>Project\<close> (\<open>prj_clusters\<close> is \<open>_clusters\<close>).\<close>

record Project =
  prj_name :: string
  prj_metadata :: "DataFrame option"
  prj_samples :: "IMCSample list"
  prj_sample_name_attribute :: string
  prj_sample_grouping_attributes :: "string list"
  prj_panel_metadata :: "DataFrame option"
  prj_toggle :: bool
  prj_subfolder_per_sample :: bool
  prj_processed_dir :: string
  prj_results_dir :: string
  prj_clusters :: "Series option"

definition DEFAULT_SAMPLE_NAME_ATTRIBUTE :: string where
  "DEFAULT_SAMPLE_NAME_ATTRIBUTE = ''sample_name''"

definition DEFAULT_SAMPLE_GROUPING_ATTRIBUTEs :: "string list" where
  "DEFAULT_SAMPLE_GROUPING_ATTRIBUTEs = [DEFAULT_SAMPLE_NAME_ATTRIBUTE]"

definition DEFAULT_TOGGLE_ATTRIBUTE :: string where
  "DEFAULT_TOGGLE_ATTRIBUTE = ''toggle''"

subsection \<open>\<open>_initialize_project_from_annotation\<close>\<close>

text \<open>
  \<open>metadata[metadata["toggle"]]\<close>: the rows whose toggle is \<open>True\<close>; the
  column has to be boolean to serve as a mask.
\<close>

definition toggle_filter :: "DataFrame \<Rightarrow> py_error + DataFrame" where
  "toggle_filter md =
     (if list_all (\<lambda>r. case r DEFAULT_TOGGLE_ATTRIBUTE of PBool b \<Rightarrow> True | _ \<Rightarrow> False) (df_rows md)
      then Inr (md\<lparr>df_rows := filter (\<lambda>r. r DEFAULT_TOGGLE_ATTRIBUTE = PBool True) (df_rows md)\<rparr>)
      else Inl (OtherError ''toggle is not a boolean mask''))"

text \<open>
  \<open>metadata.groupby(attrs, sort=False).groups\<close> followed by
  \<open>metadata.loc[idx]\<close>: the rows of each group, in the order pandas lists the
  groups. Rows with a missing value in a grouping column belong to no group.
\<close>

definition row_key :: "string list \<Rightarrow> (string \<Rightarrow> pyval) \<Rightarrow> pyval list" where
  "row_key attrs r = map r attrs"

definition keyed_rows :: "string list \<Rightarrow> DataFrame \<Rightarrow> (string \<Rightarrow> pyval) list" where
  "keyed_rows attrs md = filter (\<lambda>r. PNaN \<notin> set (row_key attrs r)) (df_rows md)"

definition group_keys :: "outside \<Rightarrow> string list \<Rightarrow> DataFrame \<Rightarrow> pyval list list" where
  "group_keys E attrs md = groups_order E (map (row_key attrs) (keyed_rows attrs md))"

definition group_rows :: "string list \<Rightarrow> DataFrame \<Rightarrow> pyval list \<Rightarrow> (string \<Rightarrow> pyval) list" where
  "group_rows attrs md k = filter (\<lambda>r. row_key attrs r = k) (keyed_rows attrs md)"

text \<open>
  \<open>cols_with_unique_values\<close>: \<open>{col for col in dfs if len(dfs[col].unique()) == 1}\<close>,
  here in the order of the columns (the set is only used to select columns,
  which are then passed on by name).
\<close>

definition cols_with_unique_values :: "string list \<Rightarrow> (string \<Rightarrow> pyval) list \<Rightarrow> string list" where
  "cols_with_unique_values cols grp = filter (\<lambda>c. length (unique (map (\<lambda>r. r c) grp)) = 1) cols"

text \<open>The keyword parameters the project passes to \<open>IMCSample\<close> by name.\<close>

definition explicit_keywords :: "string list" where
  "explicit_keywords =
     [''sample_name'', ''root_dir'', ''subfolder_per_sample'', ''metadata'', ''panel_metadata'', ''prj'']"

text \<open>
  The body of the loop for one group: \<open>row\<close> is the one row that is left of
  the constant columns; a keyword given twice is a \<open>TypeError\<close>.
\<close>

definition sample_call_for ::
  "Project \<Rightarrow> (string \<times> pyval) list \<Rightarrow> string list \<Rightarrow> (string \<Rightarrow> pyval) list
     \<Rightarrow> py_error + sample_call" where
  "sample_call_for prj kwargs cols grp =
     (let const_cols = cols_with_unique_values cols grp;
          row = map (\<lambda>c. (c, hd grp c)) const_cols
      in case map_of row (prj_sample_name_attribute prj) of
           None \<Rightarrow> Inl KeyError
         | Some sample_name \<Rightarrow>
             let extra = filter (\<lambda>kv. fst kv \<noteq> ''sample_name'') row in
             if \<not> distinct (explicit_keywords @ map fst kwargs @ map fst extra) then Inl TypeError
             else Inr \<lparr>c_sample_name = sample_name,
                       c_root_dir = (if prj_subfolder_per_sample prj
                                     then path_join (prj_processed_dir prj) (py_str sample_name)
                                     else prj_processed_dir prj),
                       c_subfolder_per_sample = prj_subfolder_per_sample prj,
                       c_metadata = (if length grp > 1
                                     then Some \<lparr>df_columns = cols, df_rows = grp\<rparr> else None),
                       c_panel_metadata = prj_panel_metadata prj,
                       c_kwargs = kwargs @ extra\<rparr>)"

text \<open>
  One turn of the loop: the sample is constructed and appended to
  \<open>self.samples\<close>. (The loop also sets the back reference \<open>roi.prj\<close> of
  the sample's ROIs.)
\<close>

definition add_sample ::
  "outside \<Rightarrow> (string \<times> pyval) list \<Rightarrow> string list \<Rightarrow> (string \<Rightarrow> pyval) list \<Rightarrow> Project
     \<Rightarrow> py_error + Project" where
  "add_sample E kwargs cols grp prj =
     ebind (sample_call_for prj kwargs cols grp) (\<lambda>call.
     ebind (new_IMCSample E call) (\<lambda>sample.
     Inr (prj\<lparr>prj_samples := prj_samples prj @ [sample]\<rparr>)))"

text \<open>Python's \<open>a or b or c\<close> on lists, the first of which may be \<open>None\<close>.\<close>

definition first_nonempty :: "string list option \<Rightarrow> string list \<Rightarrow> string list \<Rightarrow> string list" where
  "first_nonempty a b c =
     (case a of
        Some l \<Rightarrow> if l \<noteq> [] then l else if b \<noteq> [] then b else c
      | None \<Rightarrow> if b \<noteq> [] then b else c)"

text \<open>
  \<open>if (toggle or self.toggle) and ("toggle" in metadata.columns):
  metadata = metadata[metadata[DEFAULT_TOGGLE_ATTRIBUTE]]\<close>
\<close>

definition apply_toggle :: "Project \<Rightarrow> bool option \<Rightarrow> DataFrame \<Rightarrow> py_error + DataFrame" where
  "apply_toggle prj toggle' md =
     (if (toggle' = Some True \<or> prj_toggle prj) \<and> ''toggle'' \<in> set (df_columns md)
      then toggle_filter md else Inr md)"

definition initialize_project_from_annotation ::
  "outside \<Rightarrow> Project \<Rightarrow> bool option \<Rightarrow> string list option \<Rightarrow> (string \<times> pyval) list
     \<Rightarrow> py_error + Project" where
  "initialize_project_from_annotation E prj toggle' sample_grouping_attributes' kwargs =
     (let md = (case prj_metadata prj of Some m \<Rightarrow> m | None \<Rightarrow> detect_samples E) in
      if df_empty md then Inr prj
      else
        ebind (apply_toggle prj toggle' md) (\<lambda>md.
        let attrs = first_nonempty sample_grouping_attributes' (prj_sample_grouping_attributes prj)
                      (df_columns md)
        in if \<not> list_all (\<lambda>a. a \<in> set (df_columns md)) attrs then Inl KeyError
           else for_each (map (group_rows attrs md) (group_keys E attrs md))
                  (add_sample E kwargs (df_columns md)) prj))"

subsection \<open>\<open>Project.__init__\<close>\<close>

text \<open>
  A metadata or panel argument: absent, a path to a sheet, or a table.
\<close>

datatype table_arg = NoTable | TablePath string | Table DataFrame

record init_args =
  i_metadata :: table_arg
  i_name :: string
  i_sample_name_attribute :: string
  i_sample_grouping_attributes :: "string list option"
  i_panel_metadata :: table_arg
  i_toggle :: bool
  i_subfolder_per_sample :: bool
  i_processed_dir :: string
  i_results_dir :: string
  i_kwargs :: "(string \<times> pyval) list"

text \<open>\<open>pd.read_csv(x) if isinstance(x, (str, Path)) else x\<close>\<close>

definition load_table :: "disk \<Rightarrow> table_arg \<Rightarrow> py_error + DataFrame option" where
  "load_table d a =
     (case a of
        NoTable \<Rightarrow> Inr None
      | Table t \<Rightarrow> Inr (Some t)
      | TablePath p \<Rightarrow> ebind (read_table d p) (\<lambda>t. Inr (Some t)))"

text \<open>
  The constructor: the outcome (the exception, or the new project) and the
  disk it leaves. Paths are taken as absolute already; the closing message
  about a project without ROIs is only printed.
\<close>

definition Project_init :: "outside \<Rightarrow> disk \<Rightarrow> init_args \<Rightarrow> (py_error + Project) \<times> disk" where
  "Project_init E d a =
     (case load_table d (i_metadata a) of
        Inl e \<Rightarrow> (Inl e, d)
      | Inr md \<Rightarrow>
          (case load_table d (i_panel_metadata a) of
             Inl e \<Rightarrow> (Inl e, d)
           | Inr panel \<Rightarrow>
               (case mkdir d (i_results_dir a) of
                  Inl e \<Rightarrow> (Inl e, d)
                | Inr d' \<Rightarrow>
                    (initialize_project_from_annotation E
                       \<lparr>prj_name = i_name a,
                        prj_metadata = md,
                        prj_samples = [],
                        prj_sample_name_attribute = i_sample_name_attribute a,
                        prj_sample_grouping_attributes =
                          first_nonempty (i_sample_grouping_attributes a)
                            DEFAULT_SAMPLE_GROUPING_ATTRIBUTEs DEFAULT_SAMPLE_GROUPING_ATTRIBUTEs,
                        prj_panel_metadata = panel,
                        prj_toggle = i_toggle a,
                        prj_subfolder_per_sample = i_subfolder_per_sample a,
                        prj_processed_dir = i_processed_dir a,
                        prj_results_dir = i_results_dir a,
                        prj_clusters = None\<rparr>
                       None None (i_kwargs a),
                     d'))))"

subsection \<open>\<open>Project.set_clusters\<close>\<close>

text \<open>\<open>_get_input_filename\<close>: a dictionary lookup, then the path under the results directory.\<close>

definition get_input_filename :: "Project \<Rightarrow> string \<Rightarrow> py_error + string" where
  "get_input_filename prj input_type =
     (if input_type = ''h5ad''
        then Inr (path_join (path_join (prj_results_dir prj) ''single_cell'')
                    (prj_name prj @ ''.single_cell.processed.h5ad''))
      else if input_type = ''cell_cluster_assignments''
        then Inr (path_join (path_join (prj_results_dir prj) ''single_cell'')
                    (prj_name prj @ ''.single_cell.cluster_assignments.csv''))
      else Inl KeyError)"

text \<open>
  \<open>clusters.loc[sample.name]\<close>: the entries under the given first-level key,
  without that level; a \<open>KeyError\<close> when there are none.
\<close>

definition series_loc :: "Series \<Rightarrow> string \<Rightarrow> py_error + Series" where
  "series_loc c nm =
     (case s_index c of
        MultiIndex names entries \<Rightarrow>
          (let sel = filter (\<lambda>tv. fst tv \<noteq> [] \<and> hd (fst tv) = PStr nm) (zip entries (s_values c)) in
           if sel = [] then Inl KeyError
           else Inr \<lparr>s_index = MultiIndex (tl names) (map (\<lambda>tv. tl (fst tv)) sel),
                     s_values = map snd sel, s_name = s_name c\<rparr>)
      | Index n entries \<Rightarrow>
          (let sel = filter (\<lambda>tv. fst tv = PStr nm) (zip entries (s_values c)) in
           if sel = [] then Inl KeyError
           else Inr \<lparr>s_index = Index n (map fst sel), s_values = map snd sel, s_name = s_name c\<rparr>))"

text \<open>
  \<open>for sample in samples or self.samples: sample.set_clusters(clusters=clusters.loc[sample.name])\<close>
\<close>

fun propagate_clusters :: "outside \<Rightarrow> IMCSample list \<Rightarrow> Series \<Rightarrow> py_error option" where
  "propagate_clusters E [] c = None"
| "propagate_clusters E (s # ss) c =
     (case series_loc c (IMCSample.name s) of
        Inl e \<Rightarrow> Some e
      | Inr sub \<Rightarrow>
          (case sample_set_clusters E s sub of
             Some e \<Rightarrow> Some e
           | None \<Rightarrow> propagate_clusters E ss c))"

text \<open>The series to install: the argument, or what the file holds.\<close>

definition clusters_or_file :: "disk \<Rightarrow> string \<Rightarrow> Series option \<Rightarrow> py_error + Series" where
  "clusters_or_file d fn clusters =
     (case clusters of
        Some c \<Rightarrow> Inr c
      | None \<Rightarrow>
          (case csv_files d fn of
             None \<Rightarrow> Inl FileNotFoundError
           | Some file \<Rightarrow> read_clusters_csv file))"

text \<open>The two assertions on the index.\<close>

definition index_accepted :: "Series \<Rightarrow> bool" where
  "index_accepted c \<longleftrightarrow>
     is_MultiIndex (s_index c) \<and> index_names (s_index c) = map Some id_cols"

text \<open>
  \<open>set_clusters\<close> from the assignment on: the attribute is set, then the
  samples are told, then the file is written if asked for.
\<close>

definition install_clusters ::
  "outside \<Rightarrow> Project \<Rightarrow> disk \<Rightarrow> string \<Rightarrow> Series \<Rightarrow> bool \<Rightarrow> IMCSample list option
     \<Rightarrow> py_error option \<times> Project \<times> disk" where
  "install_clusters E prj d fn c write_to_disk samples' =
     (let prj1 = prj\<lparr>prj_clusters := Some c\<rparr>;
          targets = (case samples' of
                       Some l \<Rightarrow> if l \<noteq> [] then l else prj_samples prj
                     | None \<Rightarrow> prj_samples prj)
      in case propagate_clusters E targets c of
           Some e \<Rightarrow> (Some e, prj1, d)
         | None \<Rightarrow>
             if write_to_disk then
               (case ebind (write_clusters_csv c) (write_csv d fn) of
                  Inl e \<Rightarrow> (Some e, prj1, d)
                | Inr d2 \<Rightarrow> (None, prj1, d2))
             else (None, prj1, d))"

text \<open>
  \<open>set_clusters\<close>: the exception raised, if any, and the project and the disk
  it leaves.
\<close>

definition set_clusters ::
  "outside \<Rightarrow> Project \<Rightarrow> disk \<Rightarrow> Series option \<Rightarrow> bool \<Rightarrow> IMCSample list option
     \<Rightarrow> py_error option \<times> Project \<times> disk" where
  "set_clusters E prj d clusters write_to_disk samples' =
     (case get_input_filename prj ''cell_cluster_assignments'' of
        Inl e \<Rightarrow> (Some e, prj, d)
      | Inr fn \<Rightarrow>
          (case mkdir d (path_parent fn) of
             Inl e \<Rightarrow> (Some e, prj, d)
           | Inr d1 \<Rightarrow>
               (case clusters_or_file d1 fn clusters of
                  Inl e \<Rightarrow> (Some e, prj, d1)
                | Inr c \<Rightarrow>
                    if \<not> is_MultiIndex (s_index c) then (Some AssertionError, prj, d1)
                    else if index_names (s_index c) \<noteq> map Some id_cols
                      then (Some AssertionError, prj, d1)
                    else install_clusters E prj d1 fn c write_to_disk samples')))"

text \<open>
  The file of the cluster assignments, \<open>fn\<close>, and the directory
  \<open>set_clusters\<close> tries to create, \<open>fn.parent\<close>.
\<close>

definition clusters_file :: "Project \<Rightarrow> string" where
  "clusters_file prj =
     path_join (path_join (prj_results_dir prj) ''single_cell'')
       (prj_name prj @ ''.single_cell.cluster_assignments.csv'')"

definition clusters_dir :: "Project \<Rightarrow> string" where
  "clusters_dir prj = path_parent (clusters_file prj)"

text \<open>The attribute \<open>_clusters\<close> is unset or holds a series with the accepted index.\<close>

definition clusters_invariant :: "Project \<Rightarrow> bool" where
  "clusters_invariant prj \<longleftrightarrow>
     (case prj_clusters prj of None \<Rightarrow> True | Some c \<Rightarrow> index_accepted c)"

text \<open>
  A setting for concrete runs: nothing is detected on disk, the sample
  constructor keeps the name, groups come in order of first appearance.
\<close>

definition example_outside :: outside where
  "example_outside =
     \<lparr>detect_samples = \<lparr>df_columns = [], df_rows = []\<rparr>,
      new_IMCSample = (\<lambda>call. Inr \<lparr>IMCSample.name = py_str (c_sample_name call), rois = []\<rparr>),
      sample_set_clusters = (\<lambda>s c. None),
      groups_order = unique\<rparr>"

definition example_disk :: disk where
  "example_disk =
     \<lparr>dirs = {''/w'', ''/w/results''}, csv_files = Map.empty,
      read_table = (\<lambda>p. Inl FileNotFoundError)\<rparr>"

definition example_project :: Project where
  "example_project =
     \<lparr>prj_name = ''project'', prj_metadata = None, prj_samples = [],
      prj_sample_name_attribute = ''sample_name'',
      prj_sample_grouping_attributes = [''sample_name''],
      prj_panel_metadata = None, prj_toggle = True, prj_subfolder_per_sample = True,
      prj_processed_dir = ''/w/processed'', prj_results_dir = ''/w/results'',
      prj_clusters = None\<rparr>"

text \<open>A series indexed by the object id alone.\<close>

definition flat_clusters :: Series where
  "flat_clusters =
     \<lparr>s_index = Index (Some ''obj_id'') [PInt 1, PInt 2],
      s_values = [PStr ''T cell'', PStr ''B cell''],
      s_name = Some ''cluster''\<rparr>"

definition example_init_args :: init_args where
  "example_init_args =
     \<lparr>i_metadata = NoTable, i_name = ''project'', i_sample_name_attribute = ''sample_name'',
      i_sample_grouping_attributes = None, i_panel_metadata = NoTable, i_toggle = True,
      i_subfolder_per_sample = True, i_processed_dir = ''/w/processed'',
      i_results_dir = ''/w/results'', i_kwargs = []\<rparr>"

text \<open>
  The columns whose value is constant within a group, with that value.
\<close>

definition constant_columns :: "string list \<Rightarrow> (string \<Rightarrow> pyval) list \<Rightarrow> (string \<times> pyval) list" where
  "constant_columns cols grp =
     map (\<lambda>c. (c, hd grp c)) (filter (\<lambda>c. list_all (\<lambda>r. r c = hd grp c) grp) cols)"

text \<open>
  The order pandas gives the groups is some enumeration, without repetition,
  of the keys that occur.
\<close>

definition lists_each_key_once :: "outside \<Rightarrow> bool" where
  "lists_each_key_once E \<longleftrightarrow>
     (\<forall>ks. distinct (groups_order E ks) \<and> set (groups_order E ks) = set ks)"

text \<open>The sample constructor returns.\<close>

definition constructor_returns :: "outside \<Rightarrow> bool" where
  "constructor_returns E \<longleftrightarrow> (\<forall>call. \<exists>s. new_IMCSample E call = Inr s)"

text \<open>The sample built for one group, when nothing raises.\<close>

definition sample_for ::
  "outside \<Rightarrow> Project \<Rightarrow> (string \<times> pyval) list \<Rightarrow> string list \<Rightarrow> (string \<Rightarrow> pyval) list
     \<Rightarrow> IMCSample" where
  "sample_for E prj kwargs cols grp =
     projr (new_IMCSample E
       \<lparr>c_sample_name = hd grp (prj_sample_name_attribute prj),
        c_root_dir = (if prj_subfolder_per_sample prj
                      then path_join (prj_processed_dir prj)
                             (py_str (hd grp (prj_sample_name_attribute prj)))
                      else prj_processed_dir prj),
        c_subfolder_per_sample = prj_subfolder_per_sample prj,
        c_metadata = (if length grp > 1 then Some \<lparr>df_columns = cols, df_rows = grp\<rparr> else None),
        c_panel_metadata = prj_panel_metadata prj,
        c_kwargs = kwargs @ filter (\<lambda>kv. fst kv \<noteq> ''sample_name'') (constant_columns cols grp)\<rparr>)"

text \<open>
  A sheet with two samples, the second switched off, and a project over it.
\<close>

definition toggled_sheet :: DataFrame where
  "toggled_sheet =
     \<lparr>df_columns = [''sample_name'', ''toggle''],
      df_rows =
        [(\<lambda>c. if c = ''sample_name'' then PStr ''A'' else PBool True),
         (\<lambda>c. if c = ''sample_name'' then PStr ''B'' else PBool False)]\<rparr>"

definition toggled_project :: Project where
  "toggled_project = example_project\<lparr>prj_metadata := Some toggled_sheet\<rparr>"

text \<open>A sheet without a toggle column: sample A on two rows, sample B on one.\<close>

definition plain_sheet :: DataFrame where
  "plain_sheet =
     \<lparr>df_columns = [''sample_name'', ''tissue''],
      df_rows =
        [(\<lambda>c. if c = ''sample_name'' then PStr ''A'' else PStr ''lung''),
         (\<lambda>c. if c = ''sample_name'' then PStr ''B'' else PStr ''lung''),
         (\<lambda>c. if c = ''sample_name'' then PStr ''A'' else PStr ''liver'')]\<rparr>"

definition plain_project :: Project where
  "plain_project = example_project\<lparr>prj_metadata := Some plain_sheet\<rparr>"

section \<open>Properties\<close>

lemma filter_none: "list_all (\<lambda>x. \<not> P x) xs \<Longrightarrow> filter P xs = []"
  by (induction xs) auto

text \<open>
  C8. When none of the project's samples (respectively ROIs) carries one of the
  requested names, \<open>get_samples\<close> (respectively \<open>get_rois\<close>) returns
  \<open>None\<close> and raises nothing.
\<close>

theorem get_unmatched_returns_None:
  "(list_all (\<lambda>s. IMCSample.name s \<notin> set (as_name_list ns)) samples
      \<longrightarrow> get_samples samples ns = Inr PyNone)
   \<and> (list_all (\<lambda>r. ROI.name r \<notin> set (as_name_list ns)) (project_rois samples)
      \<longrightarrow> get_rois samples ns = Inr PyNone)"
  by (simp add: get_samples_def get_rois_def select_result_def filter_none)

theorem get_unmatched_returns_None_witness:
  "get_samples [\<lparr>IMCSample.name = ''s1'', rois = [\<lparr>ROI.name = ''s1-01''\<rparr>]\<rparr>] (Str ''zz'') = Inr PyNone
   \<and> get_rois [\<lparr>IMCSample.name = ''s1'', rois = [\<lparr>ROI.name = ''s1-01''\<rparr>]\<rparr>] (StrList [''zz'', ''s1'']) = Inr PyNone"
  using get_unmatched_returns_None
    [of "Str ''zz''" "[\<lparr>IMCSample.name = ''s1'', rois = [\<lparr>ROI.name = ''s1-01''\<rparr>]\<rparr>]"]
    get_unmatched_returns_None
    [of "StrList [''zz'', ''s1'']" "[\<lparr>IMCSample.name = ''s1'', rois = [\<lparr>ROI.name = ''s1-01''\<rparr>]\<rparr>]"]
  by (simp add: project_rois_def)

subsection \<open>Sequencing\<close>

lemma ebind_Inl_iff: "ebind m f = Inl e \<longleftrightarrow> m = Inl e \<or> (\<exists>x. m = Inr x \<and> f x = Inl e)"
  by (cases m) auto

lemma ebind_Inr_iff: "ebind m f = Inr y \<longleftrightarrow> (\<exists>x. m = Inr x \<and> f x = Inr y)"
  by (cases m) auto

lemma ebind_assoc: "ebind (ebind m f) g = ebind m (\<lambda>x. ebind (f x) g)"
  by (cases m) auto

lemma ebind_Inr_right: "ebind m Inr = m"
  by (cases m) auto

subsection \<open>Which channels \<open>prepare_stack\<close> averages\<close>

lemma prepare_stack_nuclear:
  "length labels = length st \<Longrightarrow>
   prepare_stack L st labels ''nuclear'' None =
     ebind (emap (eq L) (map snd (filter (\<lambda>(l, x). contains_DNA l) (zip labels st))))
       (\<lambda>planes. Inr (mean0 L planes))"
  apply (simp add: prepare_stack_def exclude_channels_def mask_select_def Let_def)
  apply (simp add: zip_map1 filter_map o_def case_prod_unfold)
  done

lemma prepare_stack_cytoplasm:
  "length labels = length st \<Longrightarrow>
   prepare_stack L st labels ''cytoplasm'' None =
     ebind (emap (eq L) (map snd (filter (\<lambda>(l, x). contains_DNA l) (zip labels st))))
       (\<lambda>nuclear. ebind (emap (eq L) (map snd (filter (\<lambda>(l, x). contains_DNA_Ki67_SMA l) (zip labels st))))
       (\<lambda>planes. Inr (mean0 L planes)))"
  apply (simp add: prepare_stack_def exclude_channels_def mask_select_def Let_def)
  apply (simp add: zip_map1 filter_map o_def case_prod_unfold)
  done

text \<open>
  C3. On a stack with a DNA, a CD45 and a Ki67 channel, compartment
  \<open>nuclear\<close> gives the mean of the equalised DNA plane, as claimed. Compartment
  \<open>cytoplasm\<close> gives the mean of the equalised DNA and Ki67 planes, the channels
  whose label matches \<open>DNA|Ki67|SMA\<close>: \<open>cyto_chs\<close> is negated a second time
  when it indexes the stack. The CD45 plane, the only one whose label does not
  match, is not part of the result.
\<close>

theorem prepare_stack_cytoplasm_takes_matching_channels:
  "prepare_stack L [dna, cd45, ki67] [''DNA1(Ir191)'', ''CD45(Sm152)'', ''Ki67(Er168)''] ''nuclear'' None
     = ebind (eq L dna) (\<lambda>d. Inr (mean0 L [d]))
   \<and> prepare_stack L [dna, cd45, ki67] [''DNA1(Ir191)'', ''CD45(Sm152)'', ''Ki67(Er168)''] ''cytoplasm'' None
     = ebind (eq L dna) (\<lambda>d. ebind (eq L ki67) (\<lambda>k. Inr (mean0 L [d, k])))"
proof -
  have "ebind (eq L dna) (\<lambda>d. ebind (eq L dna) (\<lambda>d'. ebind (eq L ki67) (\<lambda>k. Inr (mean0 L [d', k]))))
          = ebind (eq L dna) (\<lambda>d. ebind (eq L ki67) (\<lambda>k. Inr (mean0 L [d, k])))"
    by (cases "eq L dna") simp_all
  then show ?thesis
    by (simp add: prepare_stack_def exclude_channels_def mask_select_def contains_DNA_def
        contains_DNA_Ki67_SMA_def ebind_assoc)
qed

subsection \<open>The shape of the mask\<close>

lemma stardist_shape:
  assumes "models_keep_shape L" "outputs_written L save overwrite plot"
    and "roi_image L roi ''nuclear'' = Inr img" and "shape img \<noteq> []"
  shows "\<exists>m. segment_roi L roi ''stardist'' ''nuclear'' save overwrite plot = Inr m \<and> shape m = shape img"
proof -
  let ?e = "img\<lparr>content := eq_c L (content img)\<rparr>"
  have e: "eq L img = Inr ?e" using assms(4) by (simp add: eq_def)
  from assms(1) obtain p where p: "predict_instances L ?e = Inr p" "shape p = shape ?e"
    unfolding models_keep_shape_def by blast
  with e assms(2,3) show ?thesis
    by (simp add: segment_roi_def stardist_segment_nuclei_def make_mask_dict_def outputs_written_def)
qed

lemma deepcell_2d:
  assumes "models_keep_shape L" and "shape img = [h, w]" and "c = ''nuclear'' \<or> c = ''cytoplasm''"
  shows "\<exists>m. deepcell_branch L img c = Inr m \<and> shape m = [h, w]"
proof -
  let ?app = "if c = ''nuclear'' then NuclearSegmentation else CytoplasmSegmentation"
  let ?inp = "\<lparr>shape = [1, 256, 256, 1], content = resize_c L [256, 256] (content img)\<rparr>"
  have r: "deepcell_resize_to_predict_shape L img = Inr ?inp"
    using assms(2) by (simp add: deepcell_resize_to_predict_shape_def resize_def)
  from assms(1) obtain p where p: "app_predict L ?app ?inp = Inr p" "shape p = [1, 256, 256, 1]"
    unfolding models_keep_shape_def by (metis ndarray.select_convs(1))
  have s: "deepcell_segment L ?inp (Some c) = Inr (squeeze p)"
    using p assms(3) by (auto simp: deepcell_segment_def squeeze_def)
  have sh: "shape (squeeze p) = [256, 256]" using p by (simp add: squeeze_def)
  show ?thesis
    using r s sh assms(2) by (simp add: deepcell_branch_def resize_def)
qed

lemma deepcell_both:
  assumes "models_keep_shape L" and "shape img = [2, h, w]"
  shows "\<exists>m. deepcell_branch L img ''both'' = Inr m \<and> shape m = [h, w, 2]"
proof -
  let ?inp = "\<lparr>shape = [1, 256, 256, 2], content = resize_c L [256, 256, 2] (moveaxis_c L (content img))\<rparr>"
  have r: "deepcell_resize_to_predict_shape L img = Inr ?inp"
    using assms(2) by (simp add: deepcell_resize_to_predict_shape_def resize_def moveaxis_0_last_def)
  from assms(1) obtain p where p: "app_predict L MultiplexSegmentation ?inp = Inr p" "shape p = [1, 256, 256, 2]"
    unfolding models_keep_shape_def by (metis ndarray.select_convs(1))
  have s: "deepcell_segment L ?inp (Some ''both'') = Inr (squeeze p)"
    using p by (auto simp: deepcell_segment_def squeeze_def)
  have sh: "shape (squeeze p) = [256, 256, 2]" using p by (simp add: squeeze_def)
  show ?thesis
    using r s sh assms(2) by (simp add: deepcell_branch_def resize_def)
qed

lemma deepcell_returns:
  assumes "outputs_written L save overwrite plot"
    and "roi_image L roi c = Inr img"
    and "deepcell_branch L img c = Inr m"
    and "make_mask_dict L c m = Inr d"
  shows "segment_roi L roi ''deepcell'' c save overwrite plot = Inr m"
  using assms by (simp add: segment_roi_def outputs_written_def)

text \<open>
  C4. Let the models keep the shape of their input and the output files be
  written. Then, for the image \<open>img\<close> that \<open>prepare_stack\<close> returns for the
  ROI's stack and channel labels: with \<open>deepcell\<close> and compartment \<open>nuclear\<close> or \<open>cytoplasm\<close>, and with
  \<open>stardist\<close> and \<open>nuclear\<close>, an image of height \<open>h\<close> and width \<open>w\<close> gives a
  mask of shape \<open>h \<times> w\<close>; with \<open>deepcell\<close> and \<open>both\<close>, the two-channel image
  of shape \<open>2 \<times> h \<times> w\<close> gives a mask of shape \<open>h \<times> w \<times> 2\<close>.
\<close>

theorem segment_roi_mask_shape:
  assumes "models_keep_shape L" and "outputs_written L save overwrite plot"
    and "roi_image L roi compartment = Inr img"
  shows "((compartment = ''nuclear'' \<or> compartment = ''cytoplasm'') \<and> shape img = [h, w] \<longrightarrow>
            (\<exists>m. segment_roi L roi ''deepcell'' compartment save overwrite plot = Inr m
                  \<and> shape m = [h, w]))
       \<and> (compartment = ''both'' \<and> shape img = [2, h, w] \<longrightarrow>
            (\<exists>m. segment_roi L roi ''deepcell'' compartment save overwrite plot = Inr m
                  \<and> shape m = [h, w, 2]))
       \<and> (compartment = ''nuclear'' \<and> shape img = [h, w] \<longrightarrow>
            (\<exists>m. segment_roi L roi ''stardist'' compartment save overwrite plot = Inr m
                  \<and> shape m = [h, w]))"
proof (intro conjI impI)
  assume a: "(compartment = ''nuclear'' \<or> compartment = ''cytoplasm'') \<and> shape img = [h, w]"
  then obtain m where m: "deepcell_branch L img compartment = Inr m" "shape m = [h, w]"
    using deepcell_2d [OF assms(1), of img h w compartment] by blast
  have "\<exists>d. make_mask_dict L compartment m = Inr d"
    using a by (auto simp: make_mask_dict_def)
  then show "\<exists>m. segment_roi L roi ''deepcell'' compartment save overwrite plot = Inr m \<and> shape m = [h, w]"
    using deepcell_returns [OF assms(2,3) m(1)] m(2) by blast
next
  assume a: "compartment = ''both'' \<and> shape img = [2, h, w]"
  then obtain m where m: "deepcell_branch L img compartment = Inr m" "shape m = [h, w, 2]"
    using deepcell_both [OF assms(1), of img h w] by blast
  have "\<exists>d. make_mask_dict L compartment m = Inr d"
    using a m(2) by (simp add: make_mask_dict_def take_last_def)
  then show "\<exists>m. segment_roi L roi ''deepcell'' compartment save overwrite plot = Inr m \<and> shape m = [h, w, 2]"
    using deepcell_returns [OF assms(2,3) m(1)] m(2) by blast
next
  assume a: "compartment = ''nuclear'' \<and> shape img = [h, w]"
  then show "\<exists>m. segment_roi L roi ''stardist'' compartment save overwrite plot = Inr m \<and> shape m = [h, w]"
    using stardist_shape [OF assms(1,2), of roi img] assms(3) by auto
qed

lemma shape_only_lib_keeps_shape: "models_keep_shape shape_only_lib"
  by (simp add: models_keep_shape_def shape_only_lib_def)

lemma shape_only_lib_writes: "outputs_written shape_only_lib s ov p"
  by (simp add: outputs_written_def shape_only_lib_def)

lemma example_roi_prepared:
  "roi_image shape_only_lib example_roi ''nuclear'' = Inr \<lparr>shape = [3, 4], content = ()\<rparr>"
  "roi_image shape_only_lib example_roi ''cytoplasm'' = Inr \<lparr>shape = [3, 4], content = ()\<rparr>"
  "roi_image shape_only_lib example_roi ''both'' = Inr \<lparr>shape = [2, 3, 4], content = ()\<rparr>"
  by (simp_all add: roi_image_def prepare_stack_def exclude_channels_def mask_select_def contains_DNA_def
      contains_DNA_Ki67_SMA_def example_roi_def shape_only_lib_def mean0_def eq_def np_stack_def)

theorem segment_roi_mask_shape_witness:
  "(\<exists>m. segment_roi shape_only_lib example_roi ''deepcell'' ''nuclear'' False True False = Inr m
        \<and> shape m = [3, 4])
   \<and> (\<exists>m. segment_roi shape_only_lib example_roi ''deepcell'' ''both'' False True False = Inr m
        \<and> shape m = [3, 4, 2])
   \<and> (\<exists>m. segment_roi shape_only_lib example_roi ''stardist'' ''nuclear'' False True False = Inr m
        \<and> shape m = [3, 4])"
  using segment_roi_mask_shape [OF shape_only_lib_keeps_shape shape_only_lib_writes example_roi_prepared(1), of 3 4]
    segment_roi_mask_shape [OF shape_only_lib_keeps_shape shape_only_lib_writes example_roi_prepared(3), of 3 4]
  by simp

subsection \<open>The assertions of \<open>segment_roi\<close>\<close>

lemma mask_select_no_assert: "mask_select m xs \<noteq> Inl AssertionError"
  by (simp add: mask_select_def)

lemma resize_no_assert: "resize L a s \<noteq> Inl AssertionError"
  by (simp add: resize_def Let_def)

lemma np_stack_no_assert: "np_stack L a b \<noteq> Inl AssertionError"
  by (simp add: np_stack_def)

lemma take_last_no_assert: "take_last L a i \<noteq> Inl AssertionError"
  by (simp add: take_last_def)

lemma eq_no_assert: "eq L x \<noteq> Inl AssertionError"
  by (simp add: eq_def)

lemma emap_no_assert:
  "(\<And>x. f x \<noteq> Inl AssertionError) \<Longrightarrow> emap f xs \<noteq> Inl AssertionError"
  by (induction xs) (auto simp: ebind_Inl_iff)

lemma exclude_channels_no_assert: "exclude_channels st ls ex \<noteq> Inl AssertionError"
  by (auto simp: exclude_channels_def ebind_Inl_iff mask_select_no_assert split: option.splits)

lemma prepare_stack_no_assert:
  "compartment \<in> set [''nuclear'', ''cytoplasm'', ''both''] \<Longrightarrow>
   prepare_stack L st ls compartment ex \<noteq> Inl AssertionError"
  unfolding prepare_stack_def Let_def
  by (auto simp: ebind_Inl_iff mask_select_no_assert np_stack_no_assert exclude_channels_no_assert
        emap_no_assert eq_no_assert
      simp del: set_simps split: prod.splits)

lemma make_mask_dict_no_assert: "make_mask_dict L c m \<noteq> Inl AssertionError"
  by (auto simp: make_mask_dict_def ebind_Inl_iff take_last_no_assert)

lemma deepcell_resize_no_assert: "deepcell_resize_to_predict_shape L a \<noteq> Inl AssertionError"
  by (auto simp: deepcell_resize_to_predict_shape_def ebind_Inl_iff resize_no_assert)

lemma deepcell_segment_no_assert:
  "\<forall>a x. app_predict L a x \<noteq> Inl AssertionError \<Longrightarrow> deepcell_segment L a c \<noteq> Inl AssertionError"
  by (auto simp: deepcell_segment_def ebind_Inl_iff resize_no_assert split: option.splits)

lemma deepcell_branch_no_assert:
  "\<forall>a x. app_predict L a x \<noteq> Inl AssertionError \<Longrightarrow> deepcell_branch L a c \<noteq> Inl AssertionError"
  by (auto simp: deepcell_branch_def ebind_Inl_iff resize_no_assert deepcell_resize_no_assert
      deepcell_segment_no_assert)

lemma segment_roi_passes_assertions:
  assumes "model \<in> set [''deepcell'', ''stardist'']"
    and "model = ''stardist'' \<longrightarrow> compartment = ''nuclear''"
    and "compartment \<in> set [''nuclear'', ''cytoplasm'', ''both'']"
    and "libs_raise_no_AssertionError L"
    and "stack roi \<noteq> Inl AssertionError" and "channel_labels roi \<noteq> Inl AssertionError"
  shows "segment_roi L roi model compartment save overwrite plot \<noteq> Inl AssertionError"
  using assms unfolding segment_roi_def libs_raise_no_AssertionError_def roi_image_def
  by (auto simp: ebind_Inl_iff prepare_stack_no_assert make_mask_dict_no_assert
        deepcell_branch_no_assert stardist_segment_nuclei_def eq_no_assert
      simp del: set_simps split: option.splits)

lemma eq_models_irrelevant: "eq (L\<lparr>predict_instances := pi, app_predict := ap\<rparr>) = eq L"
  by (simp add: fun_eq_iff eq_def)

lemma mean0_models_irrelevant: "mean0 (L\<lparr>predict_instances := pi, app_predict := ap\<rparr>) = mean0 L"
  by (simp add: fun_eq_iff mean0_def split: list.splits)

lemma np_stack_models_irrelevant: "np_stack (L\<lparr>predict_instances := pi, app_predict := ap\<rparr>) = np_stack L"
  by (simp add: fun_eq_iff np_stack_def)

lemma prepare_stack_models_irrelevant:
  "prepare_stack (L\<lparr>predict_instances := pi, app_predict := ap\<rparr>) = prepare_stack L"
  by (simp add: fun_eq_iff prepare_stack_def eq_models_irrelevant mean0_models_irrelevant
      np_stack_models_irrelevant)

lemma roi_image_models_irrelevant:
  "roi_image (L\<lparr>predict_instances := pi, app_predict := ap\<rparr>) = roi_image L"
  by (simp add: fun_eq_iff roi_image_def prepare_stack_models_irrelevant)

text \<open>
  C10, as amended. A model name other than \<open>deepcell\<close> and \<open>stardist\<close>
  fails the first assertion, whatever the other arguments. With \<open>stardist\<close>
  and a compartment other than \<open>nuclear\<close> the call always ends in an
  exception, and no model is consulted on the way: the only step between the
  two assertions is the preparation of the image, which does not depend on the
  models; when that step returns an image the exception is the
  \<open>AssertionError\<close> of the second assertion, otherwise it is the exception
  of that step. Conversely, for a model and compartment that satisfy both
  assertions \<open>segment_roi\<close> raises no \<open>AssertionError\<close>, as long as no
  library call or file read raises one.
\<close>

theorem segment_roi_assertions:
  "(model \<notin> set [''deepcell'', ''stardist''] \<longrightarrow>
      segment_roi L roi model compartment save overwrite plot = Inl AssertionError)
   \<and> (compartment \<noteq> ''nuclear'' \<longrightarrow>
        segment_roi L roi ''stardist'' compartment save overwrite plot =
          (case roi_image L roi compartment of Inl e \<Rightarrow> Inl e | Inr img \<Rightarrow> Inl AssertionError)
        \<and> roi_image (L\<lparr>predict_instances := pi, app_predict := ap\<rparr>) roi compartment
            = roi_image L roi compartment)
   \<and> (model \<in> set [''deepcell'', ''stardist'']
        \<and> (model = ''stardist'' \<longrightarrow> compartment = ''nuclear'')
        \<and> compartment \<in> set [''nuclear'', ''cytoplasm'', ''both'']
        \<and> libs_raise_no_AssertionError L
        \<and> stack roi \<noteq> Inl AssertionError \<and> channel_labels roi \<noteq> Inl AssertionError \<longrightarrow>
      segment_roi L roi model compartment save overwrite plot \<noteq> Inl AssertionError)"
proof (intro conjI impI)
  show "segment_roi L roi model compartment save overwrite plot = Inl AssertionError"
    if "model \<notin> set [''deepcell'', ''stardist'']"
    using that by (simp add: segment_roi_def)
  show "segment_roi L roi ''stardist'' compartment save overwrite plot =
          (case roi_image L roi compartment of Inl e \<Rightarrow> Inl e | Inr img \<Rightarrow> Inl AssertionError)"
    if "compartment \<noteq> ''nuclear''"
    using that by (simp add: segment_roi_def split: sum.splits)
  show "roi_image (L\<lparr>predict_instances := pi, app_predict := ap\<rparr>) roi compartment
          = roi_image L roi compartment"
    by (simp add: roi_image_models_irrelevant)
  show "segment_roi L roi model compartment save overwrite plot \<noteq> Inl AssertionError"
    if "model \<in> set [''deepcell'', ''stardist'']
        \<and> (model = ''stardist'' \<longrightarrow> compartment = ''nuclear'')
        \<and> compartment \<in> set [''nuclear'', ''cytoplasm'', ''both'']
        \<and> libs_raise_no_AssertionError L
        \<and> stack roi \<noteq> Inl AssertionError \<and> channel_labels roi \<noteq> Inl AssertionError"
    using that segment_roi_passes_assertions [of model compartment L roi save overwrite plot]
    by blast
qed

lemma shape_only_lib_no_AssertionError: "libs_raise_no_AssertionError shape_only_lib"
  by (simp add: libs_raise_no_AssertionError_def shape_only_lib_def)

theorem segment_roi_assertions_witness:
  "segment_roi shape_only_lib example_roi ''unet'' ''nuclear'' False True False = Inl AssertionError
   \<and> segment_roi shape_only_lib example_roi ''stardist'' ''cytoplasm'' False True False = Inl AssertionError
   \<and> segment_roi shape_only_lib example_roi ''deepcell'' ''cytoplasm'' False True False \<noteq> Inl AssertionError"
  using segment_roi_assertions [of "''unet''" shape_only_lib example_roi "''nuclear''" False True False]
    segment_roi_assertions [of "''stardist''" shape_only_lib example_roi "''cytoplasm''" False True False]
    segment_roi_assertions [of "''deepcell''" shape_only_lib example_roi "''cytoplasm''" False True False]
    shape_only_lib_no_AssertionError
  by (simp add: example_roi_prepared) (simp add: example_roi_def)

text \<open>
  The claim as stated fails on a stack without a DNA channel: with
  \<open>stardist\<close> and compartment \<open>both\<close> the nuclear image is the
  0-dimensional mean of no planes, \<open>np.stack\<close> refuses to stack it on the
  cytoplasm image, and the \<open>ValueError\<close> is raised before the second
  assertion is reached.
\<close>

theorem segment_roi_assertions_counterexample:
  "segment_roi shape_only_lib roi_without_DNA ''stardist'' ''both'' False True False = Inl ValueError"
  by (simp add: segment_roi_def roi_image_def roi_without_DNA_def prepare_stack_def
      exclude_channels_def mask_select_def contains_DNA_def contains_DNA_Ki67_SMA_def
      mean0_def eq_def np_stack_def shape_only_lib_def)

subsection \<open>The \<open>segment\<close> command and missing label files\<close>

lemma warned_append: "warned (xs @ ys) = warned xs @ warned ys"
  by (induction xs rule: warned.induct) auto

lemma finished_append: "finished (xs @ ys) = finished xs @ finished ys"
  by (induction xs rule: finished.induct) auto

lemma make_ROI_mock_fields:
  "make_ROI_mock W excl t labels = Inr roi \<Longrightarrow>
   stack_file roi = t \<and> ROI_mock.name roi = str_replace (path_stem t) ''_full'' ''''"
  by (auto simp: make_ROI_mock_def ebind_Inr_iff)

lemma prepare_rois_run:
  assumes "\<forall>t \<in> set (filter (has_labels W) ts).
             \<exists>labels roi. read_labels W (path_replace t ''.tiff'' ''.csv'') = Inr labels
                \<and> make_ROI_mock W excl t labels = Inr roi"
  shows "prepare_rois W excl ts out rs =
           (out @ map (\<lambda>t. Print (MissingLabels t)) (filter (\<lambda>t. \<not> has_labels W t) ts),
            Inr (rs @ map (\<lambda>t. projr (make_ROI_mock W excl t
                                  (projr (read_labels W (path_replace t ''.tiff'' ''.csv'')))))
                        (filter (has_labels W) ts)))"
  using assms
proof (induction ts arbitrary: out rs)
  case Nil
  then show ?case by simp
next
  case (Cons t ts)
  show ?case
  proof (cases "has_labels W t")
    case False
    then show ?thesis
      using Cons.IH [of "out @ [Print (MissingLabels t)]" rs] Cons.prems
      by (simp add: has_labels_def)
  next
    case True
    then obtain labels roi where l: "read_labels W (path_replace t ''.tiff'' ''.csv'') = Inr labels"
      "make_ROI_mock W excl t labels = Inr roi"
      using Cons.prems by auto
    show ?thesis
      using True l Cons.IH [of out "rs @ [roi]"] Cons.prems
      by (simp add: has_labels_def)
  qed
qed

lemma write_mask_quiet:
  "warned (fst (write_mask W a f ex)) = []" "finished (fst (write_mask W a f ex)) = []"
  by (simp_all add: write_mask_def split: option.splits)

lemma write_figure_quiet:
  "warned (fst (write_figure W a f ex)) = []" "finished (fst (write_figure W a f ex)) = []"
  by (simp_all add: write_figure_def split: option.splits)

lemma warned_save_outputs: "warned (fst (save_outputs W a roi ex)) = []"
proof -
  obtain o1 r1 where m: "write_mask W a (mask_file a roi) ex = (o1, r1)"
    by (cases "write_mask W a (mask_file a roi) ex")
  have w1: "warned o1 = []" using write_mask_quiet(1) [of W a "mask_file a roi" ex] m by simp
  show ?thesis
  proof (cases r1)
    case (Inl e)
    with m w1 show ?thesis by (simp add: save_outputs_def)
  next
    case (Inr ex1)
    obtain o2 r2 where g: "write_figure W a (fig_file a roi) ex1 = (o2, r2)"
      by (cases "write_figure W a (fig_file a roi) ex1")
    have "warned o2 = []" using write_figure_quiet(1) [of W a "fig_file a roi" ex1] g by simp
    with Inr m w1 g show ?thesis by (simp add: save_outputs_def warned_append)
  qed
qed

lemma finished_save_outputs: "finished (fst (save_outputs W a roi ex)) = []"
proof -
  obtain o1 r1 where m: "write_mask W a (mask_file a roi) ex = (o1, r1)"
    by (cases "write_mask W a (mask_file a roi) ex")
  have w1: "finished o1 = []" using write_mask_quiet(2) [of W a "mask_file a roi" ex] m by simp
  show ?thesis
  proof (cases r1)
    case (Inl e)
    with m w1 show ?thesis by (simp add: save_outputs_def)
  next
    case (Inr ex1)
    obtain o2 r2 where g: "write_figure W a (fig_file a roi) ex1 = (o2, r2)"
      by (cases "write_figure W a (fig_file a roi) ex1")
    have "finished o2 = []" using write_figure_quiet(2) [of W a "fig_file a roi" ex1] g by simp
    with Inr m w1 g show ?thesis by (simp add: save_outputs_def finished_append)
  qed
qed

lemma write_mask_returns:
  "outputs_saved W \<Longrightarrow> \<exists>out ex'. write_mask W a f ex = (out, Inr ex')"
  by (simp add: write_mask_def outputs_saved_def)

lemma write_figure_returns:
  "outputs_saved W \<Longrightarrow> \<exists>out ex'. write_figure W a f ex = (out, Inr ex')"
  by (simp add: write_figure_def outputs_saved_def)

lemma save_outputs_returns:
  assumes "outputs_saved W"
  shows "\<exists>ex'. snd (save_outputs W a roi ex) = Inr ex'"
proof -
  obtain o1 e1 where m: "write_mask W a (mask_file a roi) ex = (o1, Inr e1)"
    using write_mask_returns [OF assms] by blast
  obtain o2 e2 where g: "write_figure W a (fig_file a roi) e1 = (o2, Inr e2)"
    using write_figure_returns [OF assms] by blast
  show ?thesis using m g by (simp add: save_outputs_def)
qed

lemma segment_one_ok:
  assumes "roi_ok W L a roi" and "outputs_saved W"
  shows "\<exists>out ex'. segment_one W L a roi ex = (out, Inr ex')
           \<and> warned out = [] \<and> finished out = [ROI_mock.name roi]"
proof -
  from assms obtain stk mask' where h: "imread W (stack_file roi) = Inr stk"
    "segment_roi L (as_roi_data W roi) (a_model a) (a_compartment a) False (a_overwrite a) (a_plot a)
       = Inr mask'"
    unfolding roi_ok_def by blast
  obtain o1 e1 where s: "save_outputs W a roi ex = (o1, Inr e1)"
    using save_outputs_returns [OF assms(2), of a roi ex]
    by (cases "save_outputs W a roi ex") auto
  have "warned o1 = []" "finished o1 = []"
    using warned_save_outputs [of W a roi ex] finished_save_outputs [of W a roi ex] s by simp_all
  then show ?thesis
    using h s by (simp add: segment_one_def warned_append finished_append)
qed

lemma segment_rois_run:
  assumes "\<forall>r \<in> set rs. roi_ok W L a r" and "outputs_saved W"
  shows "\<exists>out' ex'. segment_rois W L a rs out ex = (out', Inr ex')
           \<and> warned out' = warned out \<and> finished out' = finished out @ map ROI_mock.name rs"
  using assms
proof (induction rs arbitrary: out ex)
  case Nil
  then show ?case by simp
next
  case (Cons r rs)
  then obtain o1 e1 where o: "segment_one W L a r ex = (o1, Inr e1)" "warned o1 = []"
    "finished o1 = [ROI_mock.name r]"
    using segment_one_ok [of W L a r ex] by auto
  note Cons.prems(2)
  from Cons.IH [of "out @ o1" e1] Cons.prems obtain out' ex' where
    "segment_rois W L a rs (out @ o1) e1 = (out', Inr ex')"
    "warned out' = warned (out @ o1)"
    "finished out' = finished (out @ o1) @ map ROI_mock.name rs"
    by auto
  then show ?case
    using o by (simp add: warned_append finished_append)
qed

lemma warned_map_MissingLabels: "warned (map (\<lambda>t. Print (MissingLabels t)) ts) = ts"
  by (induction ts) auto

lemma finished_map_MissingLabels: "finished (map (\<lambda>t. Print (MissingLabels t)) ts) = []"
  by (induction ts) auto

text \<open>Where an exception of the first loop comes from, and what the loop returns.\<close>

lemma prepare_rois_Inl:
  "snd (prepare_rois W excl ts out rs) = Inl e \<Longrightarrow>
   \<exists>t \<in> set (filter (has_labels W) ts).
     read_labels W (path_replace t ''.tiff'' ''.csv'') = Inl e
     \<or> (\<exists>labels. read_labels W (path_replace t ''.tiff'' ''.csv'') = Inr labels
           \<and> make_ROI_mock W excl t labels = Inl e)"
proof (induction ts arbitrary: out rs)
  case Nil
  then show ?case by simp
next
  case (Cons t ts)
  show ?case
  proof (cases "has_labels W t")
    case False
    with Cons.prems have "snd (prepare_rois W excl ts (out @ [Print (MissingLabels t)]) rs) = Inl e"
      by (simp add: has_labels_def)
    from Cons.IH [OF this] show ?thesis by auto
  next
    case True
    show ?thesis
    proof (cases "read_labels W (path_replace t ''.tiff'' ''.csv'')")
      case (Inl e1)
      with True Cons.prems show ?thesis by (simp add: has_labels_def)
    next
      case l: (Inr labels)
      show ?thesis
      proof (cases "make_ROI_mock W excl t labels")
        case (Inl e2)
        with True l Cons.prems show ?thesis by (simp add: has_labels_def)
      next
        case (Inr roi)
        with True l Cons.prems have "snd (prepare_rois W excl ts out (rs @ [roi])) = Inl e"
          by (simp add: has_labels_def)
        from Cons.IH [OF this] show ?thesis by auto
      qed
    qed
  qed
qed

lemma prepare_rois_Inr:
  "snd (prepare_rois W excl ts out rs) = Inr rois' \<Longrightarrow>
   \<forall>r \<in> set rois'. r \<in> set rs
     \<or> (\<exists>t \<in> set (filter (has_labels W) ts). \<exists>labels.
           read_labels W (path_replace t ''.tiff'' ''.csv'') = Inr labels
           \<and> make_ROI_mock W excl t labels = Inr r)"
proof (induction ts arbitrary: out rs)
  case Nil
  then show ?case by simp
next
  case (Cons t ts)
  show ?case
  proof (cases "has_labels W t")
    case False
    with Cons.prems have "snd (prepare_rois W excl ts (out @ [Print (MissingLabels t)]) rs) = Inr rois'"
      by (simp add: has_labels_def)
    from Cons.IH [OF this] False show ?thesis by auto
  next
    case True
    show ?thesis
    proof (cases "read_labels W (path_replace t ''.tiff'' ''.csv'')")
      case (Inl e1)
      with True Cons.prems show ?thesis by (simp add: has_labels_def)
    next
      case l: (Inr labels)
      show ?thesis
      proof (cases "make_ROI_mock W excl t labels")
        case (Inl e2)
        with True l Cons.prems show ?thesis by (simp add: has_labels_def)
      next
        case r: (Inr roi)
        with True l Cons.prems have "snd (prepare_rois W excl ts out (rs @ [roi])) = Inr rois'"
          by (simp add: has_labels_def)
        from Cons.IH [OF this] True l r show ?thesis by auto
      qed
    qed
  qed
qed

lemma segment_one_Inl:
  "snd (segment_one W L a roi ex) = Inl e \<Longrightarrow>
   imread W (stack_file roi) = Inl e
   \<or> (\<exists>stk. imread W (stack_file roi) = Inr stk
         \<and> (segment_roi L (as_roi_data W roi) (a_model a) (a_compartment a) False (a_overwrite a)
               (a_plot a) = Inl e
            \<or> (\<exists>mask'. segment_roi L (as_roi_data W roi) (a_model a) (a_compartment a) False
                          (a_overwrite a) (a_plot a) = Inr mask'
                  \<and> snd (save_outputs W a roi ex) = Inl e)))"
  by (auto simp: segment_one_def split: sum.splits prod.splits)

lemma segment_rois_Inl:
  "snd (segment_rois W L a rs out ex) = Inl e \<Longrightarrow>
   \<exists>r \<in> set rs. \<exists>ex'. snd (segment_one W L a r ex') = Inl e"
proof (induction rs arbitrary: out ex)
  case Nil
  then show ?case by simp
next
  case (Cons r rs)
  obtain o1 res where s: "segment_one W L a r ex = (o1, res)"
    by (cases "segment_one W L a r ex")
  show ?case
  proof (cases res)
    case (Inl e1)
    with s Cons.prems have "snd (segment_one W L a r ex) = Inl e" by simp
    then show ?thesis by auto
  next
    case (Inr ex1)
    with s Cons.prems have "snd (segment_rois W L a rs (out @ o1) ex1) = Inl e" by simp
    from Cons.IH [OF this] show ?thesis by auto
  qed
qed

lemma main_Inl:
  assumes "snd (main W L a) = Inl e"
  shows "\<exists>t \<in> set (filter (has_labels W) (a_tiffs a)). fails_on W L a e t"
proof -
  let ?p = "prepare_rois W (a_channel_exclude a) (a_tiffs a) [Print (Starting (a_tiffs a))] []"
  obtain out res where p: "?p = (out, res)" by (cases ?p)
  show ?thesis
  proof (cases res)
    case (Inl e1)
    with p assms have "snd ?p = Inl e" by (simp add: main_def)
    from prepare_rois_Inl [OF this] show ?thesis
      by (auto simp: fails_on_def)
  next
    case (Inr rois')
    with p assms have "snd (segment_rois W L a rois' out (existing W)) = Inl e"
      by (simp add: main_def split: prod.splits sum.splits)
    from segment_rois_Inl [OF this] obtain r ex' where
      r: "r \<in> set rois'" "snd (segment_one W L a r ex') = Inl e" by blast
    from p Inr have "snd ?p = Inr rois'" by simp
    from prepare_rois_Inr [OF this] r(1) obtain t labels where
      t: "t \<in> set (filter (has_labels W) (a_tiffs a))"
         "read_labels W (path_replace t ''.tiff'' ''.csv'') = Inr labels"
         "make_ROI_mock W (a_channel_exclude a) t labels = Inr r"
      by auto
    have sf: "stack_file r = t" using make_ROI_mock_fields [OF t(3)] by simp
    from segment_one_Inl [OF r(2)] sf t(2,3) have "fails_on W L a e t"
      by (auto simp: fails_on_def split: sum.splits)
    with t(1) show ?thesis by blast
  qed
qed

text \<open>
  C7. A path whose labels file (\<open>.tiff\<close> replaced by \<open>.csv\<close>) does not exist
  is warned about and skipped, and it never ends the run: an exception that
  ends \<open>main\<close> is raised while a path whose labels file exists is processed.
  When, for every given path whose labels file exists, the labels and the stack
  can be read, the excluded channels marked, and \<open>segment_roi\<close> returns, then
  \<open>main\<close> returns \<open>0\<close>; the warning is printed for exactly the paths whose
  labels file does not exist, in order; and segmentation is reported as
  finished for every other path, in order.
\<close>

theorem main_skips_missing_labels:
  "((\<forall>t \<in> set (filter (has_labels W) (a_tiffs a)). roi_segments W L a t) \<and> outputs_saved W \<longrightarrow>
      snd (main W L a) = Inr 0
      \<and> warned (fst (main W L a)) = filter (\<lambda>t. \<not> has_labels W t) (a_tiffs a)
      \<and> finished (fst (main W L a)) =
          map (\<lambda>t. str_replace (path_stem t) ''_full'' '''') (filter (has_labels W) (a_tiffs a)))
   \<and> (snd (main W L a) = Inl e \<longrightarrow>
        (\<exists>t \<in> set (filter (has_labels W) (a_tiffs a)). fails_on W L a e t))"
proof (rule conjI)
  show "snd (main W L a) = Inl e \<longrightarrow>
        (\<exists>t \<in> set (filter (has_labels W) (a_tiffs a)). fails_on W L a e t)"
    using main_Inl [of W L a e] by blast
next
  show "(\<forall>t \<in> set (filter (has_labels W) (a_tiffs a)). roi_segments W L a t) \<and> outputs_saved W \<longrightarrow>
      snd (main W L a) = Inr 0
      \<and> warned (fst (main W L a)) = filter (\<lambda>t. \<not> has_labels W t) (a_tiffs a)
      \<and> finished (fst (main W L a)) =
          map (\<lambda>t. str_replace (path_stem t) ''_full'' '''') (filter (has_labels W) (a_tiffs a))"
  proof (rule impI)
  assume hyps: "(\<forall>t \<in> set (filter (has_labels W) (a_tiffs a)). roi_segments W L a t) \<and> outputs_saved W"
  then have hyp: "\<forall>t \<in> set (filter (has_labels W) (a_tiffs a)). roi_segments W L a t"
    and saved: "outputs_saved W" by simp_all
  let ?csv = "\<lambda>t. path_replace t ''.tiff'' ''.csv''"
  let ?kept = "filter (has_labels W) (a_tiffs a)"
  let ?mk = "\<lambda>t. projr (make_ROI_mock W (a_channel_exclude a) t (projr (read_labels W (?csv t))))"
  let ?out1 = "[Print (Starting (a_tiffs a))]
                 @ map (\<lambda>t. Print (MissingLabels t)) (filter (\<lambda>t. \<not> has_labels W t) (a_tiffs a))"
  have readable: "\<forall>t \<in> set ?kept. \<exists>labels roi. read_labels W (?csv t) = Inr labels
                     \<and> make_ROI_mock W (a_channel_exclude a) t labels = Inr roi"
    using hyp unfolding roi_segments_def by blast
  have p: "prepare_rois W (a_channel_exclude a) (a_tiffs a) [Print (Starting (a_tiffs a))] []
             = (?out1, Inr (map ?mk ?kept))"
    using prepare_rois_run [OF readable, of "[Print (Starting (a_tiffs a))]" "[]"]
    by simp
  have ok: "\<forall>r \<in> set (map ?mk ?kept). roi_ok W L a r"
  proof
    fix r assume "r \<in> set (map ?mk ?kept)"
    then obtain t where t: "t \<in> set ?kept" "r = ?mk t" by auto
    from hyp t(1) obtain labels roi stk mask' where
      h: "read_labels W (?csv t) = Inr labels"
         "make_ROI_mock W (a_channel_exclude a) t labels = Inr roi"
         "imread W t = Inr stk"
         "segment_roi L (as_roi_data W roi)
            (a_model a) (a_compartment a) False (a_overwrite a) (a_plot a) = Inr mask'"
      unfolding roi_segments_def by blast
    have "r = roi" using t(2) h(1,2) by simp
    moreover have "stack_file roi = t" using make_ROI_mock_fields [OF h(2)] by simp
    ultimately show "roi_ok W L a r"
      using h unfolding roi_ok_def by auto
  qed
  from segment_rois_run [OF ok saved, of ?out1 "existing W"] obtain out' ex' where
    s: "segment_rois W L a (map ?mk ?kept) ?out1 (existing W) = (out', Inr ex')"
       "warned out' = warned ?out1"
       "finished out' = finished ?out1 @ map ROI_mock.name (map ?mk ?kept)"
    by blast
  have m: "main W L a = (out' @ [Print FinishedAll], Inr 0)"
    using p s(1) by (simp add: main_def)
  have w: "warned ?out1 = filter (\<lambda>t. \<not> has_labels W t) (a_tiffs a)"
    by (simp add: warned_map_MissingLabels)
  have f: "finished ?out1 = []"
    by (simp add: finished_map_MissingLabels)
  have n: "map ROI_mock.name (map ?mk ?kept) = map (\<lambda>t. str_replace (path_stem t) ''_full'' '''') ?kept"
  proof -
    have "ROI_mock.name (?mk t) = str_replace (path_stem t) ''_full'' ''''" if "t \<in> set ?kept" for t
    proof -
      from readable that obtain labels roi where
        "read_labels W (?csv t) = Inr labels" "make_ROI_mock W (a_channel_exclude a) t labels = Inr roi"
        by blast
      then show ?thesis using make_ROI_mock_fields [of W "a_channel_exclude a" t labels roi] by simp
    qed
    then show ?thesis by simp
  qed
  show "snd (main W L a) = Inr 0
      \<and> warned (fst (main W L a)) = filter (\<lambda>t. \<not> has_labels W t) (a_tiffs a)
      \<and> finished (fst (main W L a)) =
          map (\<lambda>t. str_replace (path_stem t) ''_full'' '''') (filter (has_labels W) (a_tiffs a))"
    using m s(2,3) w f n by (simp add: warned_append finished_append)
  qed
qed

lemma example_world_has_labels:
  "has_labels example_world ''/d/a_full.tiff''" "\<not> has_labels example_world ''/d/b_full.tiff''"
  by (simp_all add: has_labels_def example_world_def path_replace_def path_norm_def)

lemma example_world_segments: "roi_segments example_world shape_only_lib example_args ''/d/a_full.tiff''"
  unfolding roi_segments_def
  by (simp add: example_world_def example_args_def segment_roi_def roi_image_def as_roi_data_def
      make_ROI_mock_def mark_excluded_def prepare_stack_def exclude_channels_def mask_select_def
      contains_DNA_def mean0_def eq_def stardist_segment_nuclei_def make_mask_dict_def
      shape_only_lib_def)

lemma example_world_saves: "outputs_saved example_world"
  by (simp add: outputs_saved_def example_world_def)

lemma example_world_bad_pattern:
  "snd (main example_world shape_only_lib (example_args\<lparr>a_channel_exclude := ''(''\<rparr>))
     = Inl (OtherError ''re.error'')"
  by (simp add: main_def example_args_def example_world_def path_replace_def path_norm_def
      make_ROI_mock_def mark_excluded_def str_contains_regex_def regex_special_def)

theorem main_skips_missing_labels_witness:
  "snd (main example_world shape_only_lib example_args) = Inr 0
   \<and> warned (fst (main example_world shape_only_lib example_args)) = [''/d/b_full.tiff'']
   \<and> finished (fst (main example_world shape_only_lib example_args)) = [''a'']
   \<and> snd (main example_world shape_only_lib (example_args\<lparr>a_channel_exclude := ''(''\<rparr>))
        = Inl (OtherError ''re.error'')
   \<and> fails_on example_world shape_only_lib (example_args\<lparr>a_channel_exclude := ''(''\<rparr>)
        (OtherError ''re.error'') ''/d/a_full.tiff''"
  using main_skips_missing_labels [of example_world example_args shape_only_lib]
    main_skips_missing_labels [of example_world "example_args\<lparr>a_channel_exclude := ''(''\<rparr>"
      shape_only_lib "OtherError ''re.error''"]
    example_world_has_labels example_world_segments example_world_saves example_world_bad_pattern
  by (simp add: example_args_def path_stem_def path_name_def)

subsection \<open>The statistical testing loops\<close>

lemma for_each_append:
  assumes "\<And>x s. x \<in> set xs \<Longrightarrow> body x s = Inr (s @ g x)"
  shows "for_each xs body s = Inr (s @ concat (map g xs))"
  using assms by (induction xs arbitrary: s) auto

lemma for_each_Inl:
  "for_each xs body s = Inl e \<Longrightarrow> \<exists>x \<in> set xs. \<exists>s'. body x s' = Inl e"
proof (induction xs arbitrary: s)
  case Nil
  then show ?case by simp
next
  case (Cons x xs)
  show ?case
  proof (cases "body x s")
    case (Inl e')
    with Cons.prems show ?thesis by auto
  next
    case (Inr s1)
    with Cons.prems have "for_each xs body s1 = Inl e" by simp
    from Cons.IH [OF this] show ?thesis by auto
  qed
qed

lemma visited_iff:
  "(at, it, pair) \<in> set (visited df ats) \<longleftrightarrow>
     at \<in> set ats \<and> it \<in> set (unique (map item df))
     \<and> pair \<in> set (permutations2 (unique (map (\<lambda>r. attr r at) df)))"
  by (auto simp: visited_def)

lemma test_pair_appends:
  assumes "raises_only_ValueError T"
    and "query_values T df column it at (fst pair) = Inr a"
    and "query_values T df column it at (snd pair) = Inr b"
  shows "test_pair T df column at it pair res = Inr (res @ [appended_row T at it pair a b])"
proof (cases "mannwhitneyu T a b")
  case (Inl e)
  then have "e = ValueError"
    using assms(1) unfolding raises_only_ValueError_def by blast
  with Inl assms(2,3) show ?thesis
    by (simp add: test_pair_def try_mannwhitneyu_def appended_row_def Let_def)
next
  case (Inr mu)
  with assms(2,3) show ?thesis
    by (simp add: test_pair_def try_mannwhitneyu_def appended_row_def Let_def)
qed

lemma testing_loops_rows:
  assumes "raises_only_ValueError T" and "queries_return T df column ats"
  shows "testing_loops T df column ats =
           Inr (concat (map (\<lambda>at. concat (map (\<lambda>it.
                  concat (map (\<lambda>pair. [appended_row T at it pair
                                          (projr (query_values T df column it at (fst pair)))
                                          (projr (query_values T df column it at (snd pair)))])
                    (permutations2 (unique (map (\<lambda>r. attr r at) df)))))
                  (unique (map item df)))) ats))"
proof -
  let ?pairs = "\<lambda>at. permutations2 (unique (map (\<lambda>r. attr r at) df))"
  let ?row = "\<lambda>at it pair. appended_row T at it pair
                 (projr (query_values T df column it at (fst pair)))
                 (projr (query_values T df column it at (snd pair)))"
  let ?inner = "\<lambda>at it. concat (map (\<lambda>pair. [?row at it pair]) (?pairs at))"
  let ?middle = "\<lambda>at. concat (map (?inner at) (unique (map item df)))"
  have one: "test_pair T df column at it pair s = Inr (s @ [?row at it pair])"
    if "at \<in> set ats" "it \<in> set (unique (map item df))" "pair \<in> set (?pairs at)" for at it pair s
  proof -
    have "(at, it, pair) \<in> set (visited df ats)"
      using that by (simp add: visited_iff)
    with assms(2) obtain a b where
      "query_values T df column it at (fst pair) = Inr a"
      "query_values T df column it at (snd pair) = Inr b"
      unfolding queries_return_def by (cases pair) fastforce
    then show ?thesis
      using test_pair_appends [OF assms(1), of df column it at pair a b s] by simp
  qed
  have inner: "for_each (?pairs at) (test_pair T df column at it) s = Inr (s @ ?inner at it)"
    if "at \<in> set ats" "it \<in> set (unique (map item df))" for at it s
    by (rule for_each_append) (simp add: one that)
  have middle: "for_each (unique (map item df))
                  (\<lambda>it. for_each (?pairs at) (test_pair T df column at it)) s
                  = Inr (s @ ?middle at)" if "at \<in> set ats" for at s
    by (rule for_each_append) (simp add: inner that)
  have "for_each ats (\<lambda>at. for_each (unique (map item df))
                  (\<lambda>it. for_each (?pairs at) (test_pair T df column at it))) []
          = Inr ([] @ concat (map ?middle ats))"
    by (rule for_each_append) (simp add: middle)
  then show ?thesis
    unfolding testing_loops_def by simp
qed

lemma appended_row_fields:
  "attribute (appended_row T at it pair a b) = at" "tested (appended_row T at it pair a b) = it"
  "group1 (appended_row T at it pair a b) = fst pair" "group2 (appended_row T at it pair a b) = snd pair"
  by (simp_all add: appended_row_def Let_def)

lemma appended_row_nan:
  "mannwhitneyu T a b = Inl ValueError
   \<Longrightarrow> stat (appended_row T at it pair a b) = NaN \<and> p_value (appended_row T at it pair a b) = NaN"
  by (simp add: appended_row_def Let_def)

lemma testing_loops_all_pairs:
  assumes "raises_only_ValueError T" and "queries_return T df column ats"
  shows "all_pairs_recorded T df column ats (testing_loops T df column ats)"
  unfolding all_pairs_recorded_def testing_loops_rows [OF assms]
  apply (intro exI conjI)
    apply (rule refl)
   apply (simp add: visited_def map_concat o_def appended_row_fields)
  apply (auto simp: appended_row_fields appended_row_nan)
  done

lemma test_pair_Inl:
  assumes "test_pair T df column at it pair s = Inl e"
  shows "raised_at T df column e (at, it, pair)"
proof (cases "query_values T df column it at (fst pair)")
  case (Inl e1)
  with assms show ?thesis by (cases pair) (simp add: test_pair_def raised_at_def)
next
  case a: (Inr a)
  show ?thesis
  proof (cases "query_values T df column it at (snd pair)")
    case (Inl e2)
    with a assms show ?thesis by (cases pair) (simp add: test_pair_def raised_at_def)
  next
    case b: (Inr b)
    from assms a b have "try_mannwhitneyu T a b = Inl e"
      by (simp add: test_pair_def Let_def ebind_Inl_iff)
    then have "mannwhitneyu T a b = Inl e \<and> e \<noteq> ValueError"
      by (auto simp: try_mannwhitneyu_def split: sum.splits if_splits)
    with a b show ?thesis by (cases pair) (simp add: raised_at_def)
  qed
qed

lemma testing_loops_Inl:
  assumes "testing_loops T df column ats = Inl e"
  shows "\<exists>p \<in> set (visited df ats). raised_at T df column e p"
proof -
  from assms obtain at s1 where at: "at \<in> set ats"
    "for_each (unique (map item df))
       (\<lambda>it. for_each (permutations2 (unique (map (\<lambda>r. attr r at) df)))
                (test_pair T df column at it)) s1 = Inl e"
    unfolding testing_loops_def by (blast dest: for_each_Inl)
  from for_each_Inl [OF at(2)] obtain it s2 where it: "it \<in> set (unique (map item df))"
    "for_each (permutations2 (unique (map (\<lambda>r. attr r at) df)))
       (test_pair T df column at it) s2 = Inl e"
    by blast
  from for_each_Inl [OF it(2)] obtain pair s3 where
    pair: "pair \<in> set (permutations2 (unique (map (\<lambda>r. attr r at) df)))"
    "test_pair T df column at it pair s3 = Inl e"
    by blast
  have "(at, it, pair) \<in> set (visited df ats)"
    using at(1) it(1) pair(1) by (simp add: visited_iff)
  then show ?thesis
    using test_pair_Inl [OF pair(2)] by blast
qed

text \<open>
  C6, as amended. In both testing loops of \<open>sample_comparisons\<close> (over
  channels and over clusters) a \<open>ValueError\<close> of the Mann-Whitney test never
  escapes. When the queries of the visited pairs return and the test raises
  nothing but \<open>ValueError\<close>, the loops return: every visited pair of groups
  gets its entry, in order, and an entry whose test raised \<open>ValueError\<close>
  carries \<open>nan\<close> as statistic and as p-value. An exception that does escape
  comes from a visited pair: it was raised by one of its two queries, or by its
  test and is not a \<open>ValueError\<close>.
\<close>

theorem testing_loops_substitute_nan:
  "(raises_only_ValueError T \<and> queries_return T channel_df ''channel'' sample_attributes \<longrightarrow>
      all_pairs_recorded T channel_df ''channel'' sample_attributes
        (channel_tests T channel_df sample_attributes))
   \<and> (raises_only_ValueError T' \<and> queries_return T' cluster_df ''cluster'' sample_attributes \<longrightarrow>
      all_pairs_recorded T' cluster_df ''cluster'' sample_attributes
        (cluster_tests T' cluster_df sample_attributes))
   \<and> (channel_tests T channel_df sample_attributes = Inl e \<longrightarrow>
        (\<exists>p \<in> set (visited channel_df sample_attributes). raised_at T channel_df ''channel'' e p))
   \<and> (cluster_tests T' cluster_df sample_attributes = Inl e \<longrightarrow>
        (\<exists>p \<in> set (visited cluster_df sample_attributes). raised_at T' cluster_df ''cluster'' e p))"
proof (intro conjI impI)
  show "all_pairs_recorded T channel_df ''channel'' sample_attributes
          (channel_tests T channel_df sample_attributes)"
    if "raises_only_ValueError T \<and> queries_return T channel_df ''channel'' sample_attributes"
    using that testing_loops_all_pairs [of T channel_df "''channel''" sample_attributes]
    by (simp add: channel_tests_def)
  show "all_pairs_recorded T' cluster_df ''cluster'' sample_attributes
          (cluster_tests T' cluster_df sample_attributes)"
    if "raises_only_ValueError T' \<and> queries_return T' cluster_df ''cluster'' sample_attributes"
    using that testing_loops_all_pairs [of T' cluster_df "''cluster''" sample_attributes]
    by (simp add: cluster_tests_def)
  show "\<exists>p \<in> set (visited channel_df sample_attributes). raised_at T channel_df ''channel'' e p"
    if "channel_tests T channel_df sample_attributes = Inl e"
    using that testing_loops_Inl [of T channel_df "''channel''" sample_attributes e]
    by (simp add: channel_tests_def)
  show "\<exists>p \<in> set (visited cluster_df sample_attributes). raised_at T' cluster_df ''cluster'' e p"
    if "cluster_tests T' cluster_df sample_attributes = Inl e"
    using that testing_loops_Inl [of T' cluster_df "''cluster''" sample_attributes e]
    by (simp add: cluster_tests_def)
qed

lemma example_stats_raises_only_ValueError: "raises_only_ValueError example_stats"
  by (simp add: raises_only_ValueError_def example_stats_def)

lemmas loops_eval =
  visited_def permutations2_def query_values_def query_expr_def quoted_def simple_query_def
  example_stats_def

lemma example_frame_queries:
  "queries_return example_stats example_frame ''channel'' [''diagnosis'']"
  "queries_return example_stats example_frame ''cluster'' [''diagnosis'']"
  by (simp_all add: queries_return_def example_frame_def loops_eval)

lemma apostrophe_frame_raises:
  "channel_tests example_stats apostrophe_frame [''diagnosis''] = Inl SyntaxError"
  "cluster_tests example_stats apostrophe_frame [''diagnosis''] = Inl SyntaxError"
  by (simp_all add: channel_tests_def cluster_tests_def testing_loops_def test_pair_def
      apostrophe_frame_def loops_eval)

theorem testing_loops_substitute_nan_witness:
  "all_pairs_recorded example_stats example_frame ''channel'' [''diagnosis'']
     (channel_tests example_stats example_frame [''diagnosis''])
   \<and> all_pairs_recorded example_stats example_frame ''cluster'' [''diagnosis'']
     (cluster_tests example_stats example_frame [''diagnosis''])
   \<and> query_values example_stats example_frame ''channel'' ''CD20'' ''diagnosis'' ''healthy'' = Inr [7]
   \<and> query_values example_stats example_frame ''channel'' ''CD20'' ''diagnosis'' ''disease'' = Inr []
   \<and> mannwhitneyu example_stats [7] [] = Inl ValueError
   \<and> (\<exists>p \<in> set (visited apostrophe_frame [''diagnosis'']).
         raised_at example_stats apostrophe_frame ''channel'' SyntaxError p)
   \<and> (\<exists>p \<in> set (visited apostrophe_frame [''diagnosis'']).
         raised_at example_stats apostrophe_frame ''cluster'' SyntaxError p)"
  using testing_loops_substitute_nan
      [of example_stats example_frame "[''diagnosis'']" example_stats example_frame]
    testing_loops_substitute_nan
      [of example_stats apostrophe_frame "[''diagnosis'']" example_stats apostrophe_frame SyntaxError]
    example_stats_raises_only_ValueError example_frame_queries apostrophe_frame_raises
  by (simp add: example_frame_def loops_eval)

text \<open>
  The claim as stated fails on a group whose name has an apostrophe: the
  expression built for it, \<open>channel == 'CD45' & diagnosis == 'Crohn's'\<close>, does
  not parse, the \<open>SyntaxError\<close> of \<open>DataFrame.query\<close> is raised outside the
  \<open>try\<close>, and it ends both loops.
\<close>

theorem testing_loops_substitute_nan_counterexample:
  "channel_tests example_stats apostrophe_frame [''diagnosis''] = Inl SyntaxError
   \<and> cluster_tests example_stats apostrophe_frame [''diagnosis''] = Inl SyntaxError"
  by (simp add: channel_tests_def cluster_tests_def testing_loops_def test_pair_def
      apostrophe_frame_def loops_eval)

subsection \<open>Cluster assignments through a CSV file\<close>
































subsection \<open>\<open>set_clusters\<close>: the index and the directory\<close>

lemma get_clusters_file: "get_input_filename prj ''cell_cluster_assignments'' = Inr (clusters_file prj)"
  by (simp add: get_input_filename_def clusters_file_def)

lemma clusters_file_update [simp]: "clusters_file (prj\<lparr>prj_clusters := x\<rparr>) = clusters_file prj"
  by (simp add: clusters_file_def)

lemma install_clusters_project:
  "install_clusters E prj d fn c w s = (out, prj', d') \<Longrightarrow> prj' = prj\<lparr>prj_clusters := Some c\<rparr>"
  by (auto simp: install_clusters_def Let_def split: option.splits sum.splits if_splits)

lemma install_clusters_dirs:
  "install_clusters E prj d fn c w s = (out, prj', d') \<Longrightarrow> dirs d' = dirs d"
  by (auto simp: install_clusters_def Let_def write_csv_def ebind_Inr_iff split: option.splits sum.splits if_splits)

lemma read_clusters_csv_accepted: "read_clusters_csv file = Inr c \<Longrightarrow> index_accepted c"
  by (auto simp: read_clusters_csv_def set_index_cluster_def index_accepted_def split: if_splits option.splits)

lemma clusters_or_file_cases:
  "clusters_or_file d fn cl = Inr c \<Longrightarrow> cl = Some c \<or> (cl = None \<and> index_accepted c)"
  by (auto simp: clusters_or_file_def read_clusters_csv_accepted split: option.splits)

lemma set_clusters_mkdir_fails:
  "mkdir d (clusters_dir prj) = Inl e \<Longrightarrow> set_clusters E prj d cl w s = (Some e, prj, d)"
  by (simp add: set_clusters_def get_clusters_file clusters_dir_def)

lemma set_clusters_no_series:
  "mkdir d (clusters_dir prj) = Inr d1 \<Longrightarrow> clusters_or_file d1 (clusters_file prj) cl = Inl e
   \<Longrightarrow> set_clusters E prj d cl w s = (Some e, prj, d1)"
  by (simp add: set_clusters_def get_clusters_file clusters_dir_def)

lemma set_clusters_rejects:
  "mkdir d (clusters_dir prj) = Inr d1 \<Longrightarrow> clusters_or_file d1 (clusters_file prj) cl = Inr c
   \<Longrightarrow> \<not> index_accepted c \<Longrightarrow> set_clusters E prj d cl w s = (Some AssertionError, prj, d1)"
  by (auto simp: set_clusters_def get_clusters_file clusters_dir_def index_accepted_def)

lemma set_clusters_installs:
  "mkdir d (clusters_dir prj) = Inr d1 \<Longrightarrow> clusters_or_file d1 (clusters_file prj) cl = Inr c
   \<Longrightarrow> index_accepted c
   \<Longrightarrow> set_clusters E prj d cl w s = install_clusters E prj d1 (clusters_file prj) c w s"
  by (auto simp: set_clusters_def get_clusters_file clusters_dir_def index_accepted_def)

lemma set_clusters_outcome:
  assumes "set_clusters E prj d cl w s = (out, prj', d')"
  shows "(prj' = prj \<and> out \<noteq> None)
         \<or> (\<exists>c. index_accepted c \<and> prj' = prj\<lparr>prj_clusters := Some c\<rparr> \<and> (cl = None \<or> cl = Some c))"
proof (cases "mkdir d (clusters_dir prj)")
  case (Inl e)
  then show ?thesis using assms set_clusters_mkdir_fails [of d prj e E cl w s] by auto
next
  case (Inr d1)
  show ?thesis
  proof (cases "clusters_or_file d1 (clusters_file prj) cl")
    case (Inl e)
    then show ?thesis using assms set_clusters_no_series [OF Inr Inl, of E w s] by auto
  next
    case c: (Inr c)
    show ?thesis
    proof (cases "index_accepted c")
      case False
      then show ?thesis using assms set_clusters_rejects [OF Inr c False, of E w s] by auto
    next
      case True
      have "install_clusters E prj d1 (clusters_file prj) c w s = (out, prj', d')"
        using assms set_clusters_installs [OF Inr c True, of E w s] by simp
      then have "prj' = prj\<lparr>prj_clusters := Some c\<rparr>"
        by (rule install_clusters_project)
      moreover have "cl = None \<or> cl = Some c"
        using clusters_or_file_cases [OF c] by auto
      ultimately show ?thesis using True by blast
    qed
  qed
qed

lemma set_clusters_dir_exists_after:
  assumes "set_clusters E prj d cl w s = (out, prj', d')"
    and "mkdir d (clusters_dir prj) \<noteq> Inl FileNotFoundError"
  shows "mkdir d' (clusters_dir prj') = Inl FileExistsError"
proof (cases "mkdir d (clusters_dir prj)")
  case (Inl e)
  then have "e = FileExistsError" using assms(2) by (auto simp: mkdir_def split: if_splits)
  then show ?thesis using Inl assms(1) set_clusters_mkdir_fails [of d prj e E cl w s] by auto
next
  case (Inr d1)
  then have d1: "clusters_dir prj \<in> dirs d1" by (auto simp: mkdir_def split: if_splits)
  have "dirs d' = dirs d1 \<and> clusters_dir prj' = clusters_dir prj"
  proof (cases "clusters_or_file d1 (clusters_file prj) cl")
    case (Inl e)
    then show ?thesis using assms(1) set_clusters_no_series [OF Inr Inl, of E w s] by auto
  next
    case c: (Inr c)
    show ?thesis
    proof (cases "index_accepted c")
      case False
      then show ?thesis using assms(1) set_clusters_rejects [OF Inr c False, of E w s] by auto
    next
      case True
      have i: "install_clusters E prj d1 (clusters_file prj) c w s = (out, prj', d')"
        using assms(1) set_clusters_installs [OF Inr c True, of E w s] by simp
      show ?thesis using install_clusters_project [OF i] install_clusters_dirs [OF i]
        by (simp add: clusters_dir_def)
    qed
  qed
  then show ?thesis using d1 by (simp add: mkdir_def)
qed

text \<open>
  C5. \<open>set_clusters\<close> returns normally on a given series only if its index is
  a \<open>MultiIndex\<close> named \<open>sample\<close>, \<open>roi\<close>, \<open>obj_id\<close>. On any other
  series it raises and leaves the project as it was; the exception is the
  \<open>AssertionError\<close> whenever the \<open>mkdir\<close> that precedes the assertions
  succeeded (otherwise the \<open>mkdir\<close> itself raised). Whatever the arguments and
  the outcome, a \<open>_clusters\<close> attribute that is unset or holds such a series
  stays unset or holds such a series.
\<close>

theorem set_clusters_checks_index:
  "(set_clusters E prj d (Some c) w s = (None, prj', d') \<longrightarrow> index_accepted c)
   \<and> (\<not> index_accepted c \<longrightarrow>
        (\<exists>e d'. set_clusters E prj d (Some c) w s = (Some e, prj, d')))
   \<and> (\<not> index_accepted c \<and> mkdir d (clusters_dir prj) = Inr d1 \<longrightarrow>
        set_clusters E prj d (Some c) w s = (Some AssertionError, prj, d1))
   \<and> (clusters_invariant prj \<longrightarrow> clusters_invariant (fst (snd (set_clusters E prj d cl w s))))
   \<and> (index_accepted c \<longrightarrow> (\<exists>entries. s_index c = MultiIndex [Some ''sample'', Some ''roi'', Some ''obj_id''] entries))"
proof (intro conjI impI)
  assume a: "set_clusters E prj d (Some c) w s = (None, prj', d')"
  from set_clusters_outcome [OF a] show "index_accepted c" by auto
next
  assume a: "\<not> index_accepted c"
  obtain out prj' d' where r: "set_clusters E prj d (Some c) w s = (out, prj', d')"
    by (cases "set_clusters E prj d (Some c) w s") auto
  from set_clusters_outcome [OF r] a have "prj' = prj \<and> out \<noteq> None" by auto
  then show "\<exists>e d'. set_clusters E prj d (Some c) w s = (Some e, prj, d')" using r by auto
next
  assume a: "\<not> index_accepted c \<and> mkdir d (clusters_dir prj) = Inr d1"
  then show "set_clusters E prj d (Some c) w s = (Some AssertionError, prj, d1)"
    using set_clusters_rejects [of d prj d1 "Some c" c E w s] by (simp add: clusters_or_file_def)
next
  assume a: "clusters_invariant prj"
  obtain out prj' d' where r: "set_clusters E prj d cl w s = (out, prj', d')"
    by (cases "set_clusters E prj d cl w s") auto
  from set_clusters_outcome [OF r] a have "clusters_invariant prj'"
    by (auto simp: clusters_invariant_def)
  then show "clusters_invariant (fst (snd (set_clusters E prj d cl w s)))" using r by simp
next
  assume "index_accepted c"
  then show "\<exists>entries. s_index c = MultiIndex [Some ''sample'', Some ''roi'', Some ''obj_id''] entries"
    by (cases "s_index c") (auto simp: index_accepted_def id_cols_def)
qed


lemma example_mkdir:
  "mkdir example_disk (clusters_dir example_project)
     = Inr (example_disk\<lparr>dirs := insert ''/w/results/single_cell'' (dirs example_disk)\<rparr>)"
  by (simp add: mkdir_def clusters_dir_def clusters_file_def path_parent_def path_join_def
      example_disk_def example_project_def)

theorem set_clusters_checks_index_witness:
  "set_clusters example_outside example_project example_disk (Some flat_clusters) False None
     = (Some AssertionError, example_project,
        example_disk\<lparr>dirs := insert ''/w/results/single_cell'' (dirs example_disk)\<rparr>)
   \<and> clusters_invariant
        (fst (snd (set_clusters example_outside example_project example_disk (Some named_clusters) False None)))"
  using set_clusters_checks_index [of example_outside example_project example_disk flat_clusters
      False None example_project example_disk
      "example_disk\<lparr>dirs := insert ''/w/results/single_cell'' (dirs example_disk)\<rparr>"
      "Some named_clusters"]
    example_mkdir
  by (simp add: index_accepted_def flat_clusters_def clusters_invariant_def example_project_def)

text \<open>
  C9. When the results directory exists, constructing a project raises and
  leaves the disk as it was; the exception is the \<open>FileExistsError\<close> of
  \<open>results_dir.mkdir()\<close> whenever the metadata and panel sheets were read
  (they are read first). When the directory of the cluster assignments exists,
  \<open>set_clusters\<close> raises \<open>FileExistsError\<close>, whatever its arguments; and
  after any call of \<open>set_clusters\<close> whose \<open>mkdir\<close> did not miss the parent
  directory, the next call on the project it leaves raises
  \<open>FileExistsError\<close>.
\<close>

theorem mkdir_without_exist_ok:
  "(i_results_dir a \<in> dirs d \<longrightarrow> (\<exists>e. Project_init E d a = (Inl e, d)))
   \<and> (i_results_dir a \<in> dirs d \<and> load_table d (i_metadata a) = Inr md
        \<and> load_table d (i_panel_metadata a) = Inr panel \<longrightarrow>
      Project_init E d a = (Inl FileExistsError, d))
   \<and> (clusters_dir prj \<in> dirs d \<longrightarrow>
      set_clusters E prj d cl w s = (Some FileExistsError, prj, d))
   \<and> (mkdir d (clusters_dir prj) \<noteq> Inl FileNotFoundError \<longrightarrow>
      fst (set_clusters E (fst (snd (set_clusters E prj d cl w s)))
             (snd (snd (set_clusters E prj d cl w s))) cl2 w2 s2) = Some FileExistsError)"
proof (intro conjI impI)
  assume a: "i_results_dir a \<in> dirs d"
  then have m: "mkdir d (i_results_dir a) = Inl FileExistsError"
    by (simp add: mkdir_def)
  show "\<exists>e. Project_init E d a = (Inl e, d)"
    using m by (auto simp: Project_init_def split: sum.splits)
next
  assume a: "i_results_dir a \<in> dirs d \<and> load_table d (i_metadata a) = Inr md
               \<and> load_table d (i_panel_metadata a) = Inr panel"
  then have m: "mkdir d (i_results_dir a) = Inl FileExistsError"
    by (simp add: mkdir_def)
  show "Project_init E d a = (Inl FileExistsError, d)"
    using a m by (simp add: Project_init_def)
next
  assume "clusters_dir prj \<in> dirs d"
  then have "mkdir d (clusters_dir prj) = Inl FileExistsError"
    by (simp add: mkdir_def)
  then show "set_clusters E prj d cl w s = (Some FileExistsError, prj, d)"
    by (rule set_clusters_mkdir_fails)
next
  assume a: "mkdir d (clusters_dir prj) \<noteq> Inl FileNotFoundError"
  obtain out prj' d' where r: "set_clusters E prj d cl w s = (out, prj', d')"
    by (cases "set_clusters E prj d cl w s") auto
  from set_clusters_dir_exists_after [OF r a]
  have "set_clusters E prj' d' cl2 w2 s2 = (Some FileExistsError, prj', d')"
    by (rule set_clusters_mkdir_fails)
  then show "fst (set_clusters E (fst (snd (set_clusters E prj d cl w s)))
               (snd (snd (set_clusters E prj d cl w s))) cl2 w2 s2) = Some FileExistsError"
    using r by simp
qed

lemma example_first_call:
  "set_clusters example_outside example_project example_disk (Some named_clusters) False None
     = (None, example_project\<lparr>prj_clusters := Some named_clusters\<rparr>,
        example_disk\<lparr>dirs := insert ''/w/results/single_cell'' (dirs example_disk)\<rparr>)"
  using set_clusters_installs [OF example_mkdir, of "Some named_clusters" named_clusters
      example_outside False None]
  by (simp add: clusters_or_file_def index_accepted_def named_clusters_def id_cols_def
      install_clusters_def example_project_def)

theorem mkdir_without_exist_ok_witness:
  "Project_init example_outside example_disk example_init_args = (Inl FileExistsError, example_disk)
   \<and> fst (set_clusters example_outside example_project example_disk (Some named_clusters) False None)
       = None
   \<and> fst (set_clusters example_outside
            (example_project\<lparr>prj_clusters := Some named_clusters\<rparr>)
            (example_disk\<lparr>dirs := insert ''/w/results/single_cell'' (dirs example_disk)\<rparr>)
            None False None) = Some FileExistsError"
  using mkdir_without_exist_ok [of example_init_args example_disk example_outside None None
      example_project "Some named_clusters" False None None False None]
    example_mkdir example_first_call
  by (simp add: example_init_args_def example_disk_def load_table_def)

subsection \<open>Samples from the metadata table\<close>

lemma unique_Nil_iff: "unique xs = [] \<longleftrightarrow> xs = []"
  by (cases xs) auto

lemma length_unique_one: "length (unique xs) = Suc 0 \<longleftrightarrow> xs \<noteq> [] \<and> (\<forall>x \<in> set xs. x = hd xs)"
proof (cases xs)
  case Nil
  then show ?thesis by simp
next
  case (Cons a as)
  have "filter (\<lambda>y. y \<noteq> a) as = [] \<longleftrightarrow> (\<forall>x \<in> set as. x = a)"
    by (auto simp: filter_empty_conv)
  then show ?thesis using Cons by (auto simp: unique_Nil_iff)
qed

lemma cols_with_unique_values_eq:
  "grp \<noteq> [] \<Longrightarrow> map (\<lambda>c. (c, hd grp c)) (cols_with_unique_values cols grp) = constant_columns cols grp"
proof -
  assume g: "grp \<noteq> []"
  have "(length (unique (map (\<lambda>r. r c) grp)) = 1) = list_all (\<lambda>r. r c = hd grp c) grp" for c
    using g length_unique_one [of "map (\<lambda>r. r c) grp"] by (auto simp: list_all_iff hd_map)
  then show ?thesis by (simp add: cols_with_unique_values_def constant_columns_def)
qed

lemma group_rows_key: "r \<in> set (group_rows attrs md k) \<Longrightarrow> row_key attrs r = k"
  by (simp add: group_rows_def)

lemma group_rows_nonempty:
  "k \<in> set (map (row_key attrs) (keyed_rows attrs md)) \<Longrightarrow> group_rows attrs md k \<noteq> []"
  by (auto simp: group_rows_def filter_empty_conv)

lemma name_attribute_constant:
  assumes "a \<in> set attrs" and "grp = group_rows attrs md k" and "grp \<noteq> []"
  shows "list_all (\<lambda>r. r a = hd grp a) grp"
proof -
  obtain i where i: "i < length attrs" "attrs ! i = a" using assms(1) by (auto simp: in_set_conv_nth)
  have "\<And>r. r \<in> set grp \<Longrightarrow> r a = k ! i"
  proof -
    fix r assume "r \<in> set grp"
    then have "map r attrs = k" using assms(2) group_rows_key [of r attrs md k] by (simp add: row_key_def)
    then show "r a = k ! i" using i by auto
  qed
  moreover have "hd grp \<in> set grp" using assms(3) by simp
  ultimately show ?thesis unfolding list_all_iff by metis
qed

lemma constant_columns_lookup:
  assumes "a \<in> set cols" and "list_all (\<lambda>r. r a = hd grp a) grp"
  shows "map_of (constant_columns cols grp) a = Some (hd grp a)"
proof -
  have "a \<in> set (filter (\<lambda>c. list_all (\<lambda>r. r c = hd grp c) grp) cols)" using assms by simp
  then show ?thesis unfolding constant_columns_def
    by (simp add: map_of_map_restrict)
qed

lemma constant_columns_keys: "set (map fst (constant_columns cols grp)) \<subseteq> set cols"
  by (auto simp: constant_columns_def)

lemma distinct_append_filter:
  "distinct (xs @ ys) \<Longrightarrow> distinct (xs @ filter P ys)"
  by auto

lemma extra_keys:
  "map fst (filter (\<lambda>kv. fst kv \<noteq> n) (constant_columns cols grp))
     = filter (\<lambda>c. list_all (\<lambda>r. r c = hd grp c) grp) (filter (\<lambda>c. c \<noteq> n) cols)"
  by (induction cols) (auto simp: constant_columns_def)

lemma sample_call_for_ok:
  assumes "grp \<noteq> []" and "prj_sample_name_attribute prj \<in> set cols"
    and "list_all (\<lambda>r. r (prj_sample_name_attribute prj) = hd grp (prj_sample_name_attribute prj)) grp"
    and "distinct (explicit_keywords @ map fst kwargs @ filter (\<lambda>c. c \<noteq> ''sample_name'') cols)"
  shows "sample_call_for prj kwargs cols grp =
     Inr \<lparr>c_sample_name = hd grp (prj_sample_name_attribute prj),
        c_root_dir = (if prj_subfolder_per_sample prj
                      then path_join (prj_processed_dir prj)
                             (py_str (hd grp (prj_sample_name_attribute prj)))
                      else prj_processed_dir prj),
        c_subfolder_per_sample = prj_subfolder_per_sample prj,
        c_metadata = (if length grp > 1 then Some \<lparr>df_columns = cols, df_rows = grp\<rparr> else None),
        c_panel_metadata = prj_panel_metadata prj,
        c_kwargs = kwargs @ filter (\<lambda>kv. fst kv \<noteq> ''sample_name'') (constant_columns cols grp)\<rparr>"
proof -
  have row: "map (\<lambda>c. (c, hd grp c)) (cols_with_unique_values cols grp) = constant_columns cols grp"
    using assms(1) by (rule cols_with_unique_values_eq)
  have look: "map_of (constant_columns cols grp) (prj_sample_name_attribute prj)
                = Some (hd grp (prj_sample_name_attribute prj))"
    using assms(2,3) by (rule constant_columns_lookup)
  have "distinct ((explicit_keywords @ map fst kwargs) @ filter (\<lambda>c. c \<noteq> ''sample_name'') cols)"
    using assms(4) by simp
  then have "distinct ((explicit_keywords @ map fst kwargs)
          @ filter (\<lambda>c. list_all (\<lambda>r. r c = hd grp c) grp) (filter (\<lambda>c. c \<noteq> ''sample_name'') cols))"
    by (rule distinct_append_filter)
  then have d: "distinct (explicit_keywords @ map fst kwargs
          @ map fst (filter (\<lambda>kv. fst kv \<noteq> ''sample_name'') (constant_columns cols grp)))"
    by (simp only: extra_keys append_assoc)
  show ?thesis
    unfolding sample_call_for_def Let_def row using look d by simp
qed

lemma add_sample_ok:
  assumes "grp \<noteq> []" and "prj_sample_name_attribute prj \<in> set cols"
    and "list_all (\<lambda>r. r (prj_sample_name_attribute prj) = hd grp (prj_sample_name_attribute prj)) grp"
    and "distinct (explicit_keywords @ map fst kwargs @ filter (\<lambda>c. c \<noteq> ''sample_name'') cols)"
    and "constructor_returns E"
  shows "add_sample E kwargs cols grp prj
           = Inr (prj\<lparr>prj_samples := prj_samples prj @ [sample_for E prj kwargs cols grp]\<rparr>)"
proof -
  let ?call = "\<lparr>c_sample_name = hd grp (prj_sample_name_attribute prj),
        c_root_dir = (if prj_subfolder_per_sample prj
                      then path_join (prj_processed_dir prj)
                             (py_str (hd grp (prj_sample_name_attribute prj)))
                      else prj_processed_dir prj),
        c_subfolder_per_sample = prj_subfolder_per_sample prj,
        c_metadata = (if length grp > 1 then Some \<lparr>df_columns = cols, df_rows = grp\<rparr> else None),
        c_panel_metadata = prj_panel_metadata prj,
        c_kwargs = kwargs @ filter (\<lambda>kv. fst kv \<noteq> ''sample_name'') (constant_columns cols grp)\<rparr>"
  obtain s where s: "new_IMCSample E ?call = Inr s"
    using assms(5) unfolding constructor_returns_def by blast
  then have "sample_for E prj kwargs cols grp = s" by (simp add: sample_for_def)
  then show ?thesis
    using s sample_call_for_ok [OF assms(1-4)] by (simp add: add_sample_def)
qed

lemma sample_for_samples [simp]:
  "sample_for E (prj\<lparr>prj_samples := x\<rparr>) kwargs cols grp = sample_for E prj kwargs cols grp"
  by (simp add: sample_for_def)

lemma for_each_add_sample:
  assumes "\<forall>grp \<in> set groups. grp \<noteq> []
             \<and> list_all (\<lambda>r. r (prj_sample_name_attribute prj) = hd grp (prj_sample_name_attribute prj)) grp"
    and "prj_sample_name_attribute prj \<in> set cols"
    and "distinct (explicit_keywords @ map fst kwargs @ filter (\<lambda>c. c \<noteq> ''sample_name'') cols)"
    and "constructor_returns E"
  shows "for_each groups (add_sample E kwargs cols) prj
           = Inr (prj\<lparr>prj_samples := prj_samples prj @ map (sample_for E prj kwargs cols) groups\<rparr>)"
  using assms
proof (induction groups arbitrary: prj)
  case Nil
  then show ?case by simp
next
  case (Cons g gs)
  let ?p = "prj\<lparr>prj_samples := prj_samples prj @ [sample_for E prj kwargs cols g]\<rparr>"
  have step: "add_sample E kwargs cols g prj = Inr ?p"
    using Cons.prems by (intro add_sample_ok) auto
  have "for_each gs (add_sample E kwargs cols) ?p
          = Inr (?p\<lparr>prj_samples := prj_samples ?p @ map (sample_for E ?p kwargs cols) gs\<rparr>)"
    using Cons.prems by (intro Cons.IH) auto
  then show ?case using step by simp
qed

text \<open>
  C2, as amended. Take a project with a non-empty metadata table. The rows
  whose toggle is false are dropped first, when toggling is on and the table
  has a (boolean) \<open>toggle\<close> column. Let the grouping attributes (the given
  ones, else the project's, which default to \<open>sample_name\<close>) be columns,
  the sample-name attribute be one of them, and no column share its name with
  another keyword argument of the constructor. Then initialization appends
  exactly one sample per combination of grouping values among the remaining
  rows that have no missing grouping value, in the order \<open>groupby\<close> lists
  the groups; the sample of a group is constructed from the group's
  sample name and, as keyword arguments, the columns that are constant within
  the group (\<open>sample_name\<close> itself left out), and from the group's rows when
  there are several.
\<close>

theorem one_sample_per_group:
  assumes "prj_metadata prj = Some md0" and "\<not> df_empty md0"
    and "apply_toggle prj toggle' md0 = Inr md"
    and "attrs = first_nonempty sga (prj_sample_grouping_attributes prj) (df_columns md)"
    and "list_all (\<lambda>a. a \<in> set (df_columns md)) attrs"
    and "prj_sample_name_attribute prj \<in> set attrs"
    and "distinct (explicit_keywords @ map fst kwargs
                     @ filter (\<lambda>c. c \<noteq> ''sample_name'') (df_columns md))"
    and "constructor_returns E" and "lists_each_key_once E"
  shows "initialize_project_from_annotation E prj toggle' sga kwargs =
           Inr (prj\<lparr>prj_samples := prj_samples prj
                  @ map (\<lambda>k. sample_for E prj kwargs (df_columns md) (group_rows attrs md k))
                        (group_keys E attrs md)\<rparr>)
       \<and> distinct (group_keys E attrs md)
       \<and> set (group_keys E attrs md) = set (map (row_key attrs) (keyed_rows attrs md))
       \<and> (\<forall>k \<in> set (group_keys E attrs md).
             group_rows attrs md k \<noteq> []
             \<and> (\<forall>r \<in> set (group_rows attrs md k). row_key attrs r = k))"
proof -
  let ?a = "prj_sample_name_attribute prj"
  let ?keys = "group_keys E attrs md"
  have keys: "distinct ?keys" "set ?keys = set (map (row_key attrs) (keyed_rows attrs md))"
    using assms(9) unfolding lists_each_key_once_def group_keys_def by auto
  have grp: "\<forall>k \<in> set ?keys. group_rows attrs md k \<noteq> []
               \<and> (\<forall>r \<in> set (group_rows attrs md k). row_key attrs r = k)"
    using keys(2) group_rows_nonempty group_rows_key by blast
  have a_col: "?a \<in> set (df_columns md)"
    using assms(5,6) by (auto simp: list_all_iff)
  have groups: "\<forall>g \<in> set (map (group_rows attrs md) ?keys). g \<noteq> []
                  \<and> list_all (\<lambda>r. r ?a = hd g ?a) g"
  proof
    fix g assume "g \<in> set (map (group_rows attrs md) ?keys)"
    then obtain k where k: "k \<in> set ?keys" "g = group_rows attrs md k" by auto
    then have ne: "g \<noteq> []" using grp by simp
    show "g \<noteq> [] \<and> list_all (\<lambda>r. r ?a = hd g ?a) g"
      using ne name_attribute_constant [OF assms(6) k(2) ne] by simp
  qed
  have loop: "for_each (map (group_rows attrs md) ?keys) (add_sample E kwargs (df_columns md)) prj
      = Inr (prj\<lparr>prj_samples := prj_samples prj
               @ map (sample_for E prj kwargs (df_columns md)) (map (group_rows attrs md) ?keys)\<rparr>)"
    using for_each_add_sample [OF groups a_col assms(7,8)] .
  have "initialize_project_from_annotation E prj toggle' sga kwargs
          = for_each (map (group_rows attrs md) ?keys) (add_sample E kwargs (df_columns md)) prj"
    using assms(1-5) by (simp add: initialize_project_from_annotation_def Let_def)
  then show ?thesis using loop keys grp by (simp add: o_def)
qed


lemma set_unique: "set (unique xs) = set xs"
  by (induction xs rule: unique.induct) auto

lemma distinct_unique: "distinct (unique xs)"
  by (induction xs rule: unique.induct) (auto simp: set_unique)

lemma example_outside_ok: "constructor_returns example_outside" "lists_each_key_once example_outside"
  by (simp_all add: constructor_returns_def lists_each_key_once_def example_outside_def set_unique distinct_unique)

lemmas init_eval =
  initialize_project_from_annotation_def apply_toggle_def toggle_filter_def df_empty_def
  first_nonempty_def group_keys_def group_rows_def keyed_rows_def row_key_def add_sample_def
  sample_call_for_def cols_with_unique_values_def explicit_keywords_def example_outside_def
  example_project_def DEFAULT_TOGGLE_ATTRIBUTE_def Let_def

text \<open>
  The claim as stated fails on a sheet with a \<open>toggle\<close> column: the sheet
  has the two sample names A and B, and B, whose toggle is false, gets no
  sample.
\<close>

theorem one_sample_per_group_counterexample:
  "initialize_project_from_annotation example_outside toggled_project None None []
     = Inr (toggled_project\<lparr>prj_samples := [\<lparr>IMCSample.name = ''A'', rois = []\<rparr>]\<rparr>)
   \<and> unique (map (row_key [''sample_name'']) (df_rows toggled_sheet)) = [[PStr ''A''], [PStr ''B'']]"
  by (simp add: init_eval toggled_project_def toggled_sheet_def)

lemma plain_hyps:
  "prj_metadata plain_project = Some plain_sheet" "\<not> df_empty plain_sheet"
  "apply_toggle plain_project None plain_sheet = Inr plain_sheet"
  "[''sample_name''] = first_nonempty None (prj_sample_grouping_attributes plain_project) (df_columns plain_sheet)"
  "list_all (\<lambda>a. a \<in> set (df_columns plain_sheet)) [''sample_name'']"
  "prj_sample_name_attribute plain_project \<in> set [''sample_name'']"
  "distinct (explicit_keywords @ map fst ([] :: (string \<times> pyval) list)
               @ filter (\<lambda>c. c \<noteq> ''sample_name'') (df_columns plain_sheet))"
  by (simp_all add: plain_project_def plain_sheet_def example_project_def df_empty_def apply_toggle_def
      first_nonempty_def explicit_keywords_def)

theorem one_sample_per_group_witness:
  "initialize_project_from_annotation example_outside plain_project None None []
     = Inr (plain_project\<lparr>prj_samples :=
              [\<lparr>IMCSample.name = ''A'', rois = []\<rparr>, \<lparr>IMCSample.name = ''B'', rois = []\<rparr>]\<rparr>)
   \<and> map (\<lambda>k. map_sum id c_kwargs
               (sample_call_for plain_project [] (df_columns plain_sheet)
                  (group_rows [''sample_name''] plain_sheet k)))
         [[PStr ''A''], [PStr ''B'']]
       = [Inr [], Inr [(''tissue'', PStr ''lung'')]]"
  using one_sample_per_group [OF plain_hyps example_outside_ok]
  by (simp add: init_eval sample_for_def constant_columns_def plain_project_def plain_sheet_def)

end
